theory Spec2Isabelle
  imports Main "HOL-Library.Monad_Syntax"
begin

section \<open>Poem Studio: tables, request handlers and their ownership checks\<close>

text \<open>
  A shallow embedding of the two source files of the repository: the table declarations
  (\<^verbatim>\<open>PoemCollections\<close>, \<^verbatim>\<open>Poems\<close>) and the seven actions of
  \<^verbatim>\<open>src/actions/index.ts\<close>. The database is an explicit state that every handler
  takes and returns; an \<^verbatim>\<open>ActionError\<close> that is thrown is the left summand of the
  result. The two values a handler takes from its environment, \<^verbatim>\<open>crypto.randomUUID()\<close>
  and \<^verbatim>\<open>new Date()\<close>, are arguments \<open>uuid\<close> and \<open>now\<close> (each handler asks for
  each of them at most once).
\<close>

subsection \<open>Rows of the two tables\<close>

text \<open>
  A column declared \<^verbatim>\<open>optional: true\<close> holds \<open>None\<close> for SQL NULL. Dates are
  milliseconds as integers. The field names are the columns' names with a prefix, since
  both tables have columns \<^verbatim>\<open>id\<close>, \<^verbatim>\<open>userId\<close>, \<^verbatim>\<open>createdAt\<close> and
  \<^verbatim>\<open>updatedAt\<close>.
\<close>

record collection_row =
  c_id :: string
  c_userId :: string
  c_name :: string
  c_description :: "string option"
  c_icon :: "string option"
  c_isDefault :: bool
  c_createdAt :: int
  c_updatedAt :: int

record poem_row =
  p_id :: string
  p_collectionId :: "string option"
  p_userId :: string
  p_title :: "string option"
  p_form :: "string option"
  p_style :: "string option"
  p_language :: "string option"
  p_prompt :: "string option"
  p_body :: string
  p_notes :: "string option"
  p_isFavorite :: bool
  p_createdAt :: int
  p_updatedAt :: int

subsection \<open>The database\<close>

text \<open>
  The state of the store: the rows of each table in storage order, whether the engine
  enforces the reference \<^verbatim>\<open>Poems.collectionId -> PoemCollections.id\<close> that the
  schema declares (an engine setting the source does not fix, so both values are
  covered), and the list of statements issued so far. The last component is what makes
  "no storage access" a property of the state: every call of \<^verbatim>\<open>db\<close> in the source
  appends one entry.
\<close>

datatype table_name = TPoemCollections | TPoems

datatype statement =
  SelectFrom table_name
  | InsertInto table_name
  | Update table_name
  | DeleteFrom table_name

record db =
  PoemCollections :: "collection_row list"
  Poems :: "poem_row list"
  foreign_keys :: bool
  statements :: "statement list"

datatype error_code = UNAUTHORIZED | NOT_FOUND

text \<open>
  What a call can fail with: an \<^verbatim>\<open>ActionError\<close> thrown by the source (code and
  message), the input error raised when the action's schema rejects the input, and a
  constraint violation thrown by the store (not caught anywhere in the source).
\<close>

datatype error =
  ActionError error_code string
  | ActionInputError
  | ConstraintViolation

type_synonym 'a action = "db \<Rightarrow> (error + 'a) \<times> db"

definition return :: "'a \<Rightarrow> 'a action" where
  "return x d = (Inr x, d)"

definition throw :: "error \<Rightarrow> 'a action" where
  "throw e d = (Inl e, d)"

text \<open>\<^verbatim>\<open>const x = await m; ...\<close>: a thrown error ends the handler, keeping the state
  reached so far.\<close>

definition await :: "'a action \<Rightarrow> ('a \<Rightarrow> 'b action) \<Rightarrow> 'b action" where
  "await m f d = (case m d of (Inl e, d1) \<Rightarrow> (Inl e, d1) | (Inr x, d1) \<Rightarrow> f x d1)"

definition issue :: "statement \<Rightarrow> db \<Rightarrow> db" where
  "issue s d = d\<lparr>statements := statements d @ [s]\<rparr>"

text \<open>\<^verbatim>\<open>const [x] = rows\<close>: the first element, or undefined.\<close>

definition first :: "'a list \<Rightarrow> 'a option" where
  "first rows = (case rows of [] \<Rightarrow> None | x # _ \<Rightarrow> Some x)"

text \<open>The declared reference holds for a row whose \<^verbatim>\<open>collectionId\<close> is NULL or the
  id of some row of \<^verbatim>\<open>PoemCollections\<close>.\<close>

definition reference_ok :: "db \<Rightarrow> string option \<Rightarrow> bool" where
  "reference_ok d cid =
     (case cid of None \<Rightarrow> True | Some c \<Rightarrow> c \<in> set (map c_id (PoemCollections d)))"

definition select_PoemCollections :: "(collection_row \<Rightarrow> bool) \<Rightarrow> collection_row list action" where
  "select_PoemCollections cond d =
     (Inr (filter cond (PoemCollections d)), issue (SelectFrom TPoemCollections) d)"

definition select_Poems :: "(poem_row \<Rightarrow> bool) \<Rightarrow> poem_row list action" where
  "select_Poems cond d = (Inr (filter cond (Poems d)), issue (SelectFrom TPoems) d)"

text \<open>\<^verbatim>\<open>insert(...).values(row).returning()\<close>: the primary key must be new.\<close>

definition insert_PoemCollections :: "collection_row \<Rightarrow> collection_row list action" where
  "insert_PoemCollections row d =
     (let d1 = issue (InsertInto TPoemCollections) d in
      if c_id row \<in> set (map c_id (PoemCollections d)) then (Inl ConstraintViolation, d1)
      else (Inr [row], d1\<lparr>PoemCollections := PoemCollections d @ [row]\<rparr>))"

definition insert_Poems :: "poem_row \<Rightarrow> poem_row list action" where
  "insert_Poems row d =
     (let d1 = issue (InsertInto TPoems) d in
      if p_id row \<in> set (map p_id (Poems d)) then (Inl ConstraintViolation, d1)
      else if foreign_keys d \<and> \<not> reference_ok d (p_collectionId row)
        then (Inl ConstraintViolation, d1)
      else (Inr [row], d1\<lparr>Poems := Poems d @ [row]\<rparr>))"

text \<open>\<^verbatim>\<open>update(T).set(...).where(cond).returning()\<close>: \<open>assign\<close> is the set clause
  as a function on rows; the rows returned are the updated ones. An enforced reference
  is checked for the rows whose \<^verbatim>\<open>collectionId\<close> the update changes.\<close>

definition update_PoemCollections ::
  "(collection_row \<Rightarrow> collection_row) \<Rightarrow> (collection_row \<Rightarrow> bool) \<Rightarrow> collection_row list action" where
  "update_PoemCollections assign cond d =
     (Inr (map assign (filter cond (PoemCollections d))),
      (issue (Update TPoemCollections) d)
        \<lparr>PoemCollections := map (\<lambda>r. if cond r then assign r else r) (PoemCollections d)\<rparr>)"

definition update_Poems ::
  "(poem_row \<Rightarrow> poem_row) \<Rightarrow> (poem_row \<Rightarrow> bool) \<Rightarrow> poem_row list action" where
  "update_Poems assign cond d =
     (let d1 = issue (Update TPoems) d in
      if foreign_keys d \<and>
         list_ex (\<lambda>r. cond r \<and> p_collectionId (assign r) \<noteq> p_collectionId r \<and>
                      \<not> reference_ok d (p_collectionId (assign r))) (Poems d)
        then (Inl ConstraintViolation, d1)
      else (Inr (map assign (filter cond (Poems d))),
            d1\<lparr>Poems := map (\<lambda>r. if cond r then assign r else r) (Poems d)\<rparr>))"

text \<open>\<^verbatim>\<open>delete(Poems).where(cond)\<close>: the result is \<^verbatim>\<open>rowsAffected\<close>.\<close>

definition delete_Poems :: "(poem_row \<Rightarrow> bool) \<Rightarrow> nat action" where
  "delete_Poems cond d =
     (Inr (length (filter cond (Poems d))),
      (issue (DeleteFrom TPoems) d)\<lparr>Poems := filter (\<lambda>r. \<not> cond r) (Poems d)\<rparr>)"

subsection \<open>Inputs and their schemas\<close>

text \<open>
  An action receives a JSON value, or nothing (\<open>None\<close>: \<^verbatim>\<open>undefined\<close>). The schemas
  of the source only ever look at strings and booleans, so the numbers carried by \<open>JNum\<close>
  are never read. A property that is absent from an object reads as \<^verbatim>\<open>undefined\<close>.
\<close>

datatype json =
  JNull
  | JBool bool
  | JNum int
  | JStr string
  | JArr "json list"
  | JObj "(string \<times> json) list"

text \<open>A schema parses a value or rejects it (\<open>None\<close>).\<close>

type_synonym 'a schema = "json option \<Rightarrow> 'a option"

definition z_string :: "string schema" where
  "z_string v = (case v of Some (JStr s) \<Rightarrow> Some s | _ \<Rightarrow> None)"

definition z_string_min :: "nat \<Rightarrow> string schema" where
  "z_string_min n v =
     (case z_string v of None \<Rightarrow> None | Some s \<Rightarrow> if n \<le> length s then Some s else None)"

definition z_boolean :: "bool schema" where
  "z_boolean v = (case v of Some (JBool b) \<Rightarrow> Some b | _ \<Rightarrow> None)"

definition optional :: "'a schema \<Rightarrow> ('a option) schema" where
  "optional sch v = (case v of None \<Rightarrow> Some None | Some _ \<Rightarrow> map_option Some (sch v))"

definition default_to :: "'a \<Rightarrow> 'a schema \<Rightarrow> 'a schema" where
  "default_to x sch v = (case v of None \<Rightarrow> Some x | Some _ \<Rightarrow> sch v)"

text \<open>\<^verbatim>\<open>z.object({...})\<close>: the value must be an object; \<open>shape\<close> reads the declared
  keys through the lookup it is given, and keys it does not read are dropped.\<close>

definition z_object :: "((string \<Rightarrow> json option) \<Rightarrow> 'a option) \<Rightarrow> 'a schema" where
  "z_object shape v = (case v of Some (JObj kvs) \<Rightarrow> shape (map_of kvs) | _ \<Rightarrow> None)"

definition refine :: "('a \<Rightarrow> bool) \<Rightarrow> 'a schema \<Rightarrow> 'a schema" where
  "refine check sch v =
     (case sch v of None \<Rightarrow> None | Some x \<Rightarrow> if check x then Some x else None)"

record createCollectionInput =
  cc_name :: string
  cc_description :: "string option"
  cc_icon :: "string option"
  cc_isDefault :: "bool option"

record updateCollectionInput =
  uc_id :: string
  uc_name :: "string option"
  uc_description :: "string option"
  uc_icon :: "string option"
  uc_isDefault :: "bool option"

record createPoemInput =
  cp_collectionId :: "string option"
  cp_title :: "string option"
  cp_form :: "string option"
  cp_style :: "string option"
  cp_language :: "string option"
  cp_prompt :: "string option"
  cp_body :: string
  cp_notes :: "string option"
  cp_isFavorite :: "bool option"

text \<open>
  The handler of \<^verbatim>\<open>updatePoem\<close> compares \<^verbatim>\<open>input.collectionId\<close> with both
  \<^verbatim>\<open>undefined\<close> and \<^verbatim>\<open>null\<close>, so this one field is modelled with all three
  cases the handler distinguishes.
\<close>

datatype 'a nullable = Undefined | Null | Defined 'a

record updatePoemInput =
  up_id :: string
  up_collectionId :: "string nullable"
  up_title :: "string option"
  up_form :: "string option"
  up_style :: "string option"
  up_language :: "string option"
  up_prompt :: "string option"
  up_body :: "string option"
  up_notes :: "string option"
  up_isFavorite :: "bool option"

record deletePoemInput =
  dp_id :: string

record listPoemsInput =
  lp_collectionId :: "string option"
  lp_favoritesOnly :: bool

definition of_optional :: "'a option \<Rightarrow> 'a nullable" where
  "of_optional v = (case v of None \<Rightarrow> Undefined | Some x \<Rightarrow> Defined x)"

definition createCollection_input :: "createCollectionInput schema" where
  "createCollection_input =
     z_object (\<lambda>prop. do {
       name \<leftarrow> z_string_min 1 (prop ''name'');
       description \<leftarrow> optional z_string (prop ''description'');
       icon \<leftarrow> optional z_string (prop ''icon'');
       isDefault \<leftarrow> optional z_boolean (prop ''isDefault'');
       Some \<lparr>cc_name = name, cc_description = description, cc_icon = icon,
             cc_isDefault = isDefault\<rparr>
     })"

definition updateCollection_input :: "updateCollectionInput schema" where
  "updateCollection_input =
     refine
       (\<lambda>input. uc_name input \<noteq> None \<or> uc_description input \<noteq> None \<or>
                 uc_icon input \<noteq> None \<or> uc_isDefault input \<noteq> None)
       (z_object (\<lambda>prop. do {
          id \<leftarrow> z_string_min 1 (prop ''id'');
          name \<leftarrow> optional (z_string_min 1) (prop ''name'');
          description \<leftarrow> optional z_string (prop ''description'');
          icon \<leftarrow> optional z_string (prop ''icon'');
          isDefault \<leftarrow> optional z_boolean (prop ''isDefault'');
          Some \<lparr>uc_id = id, uc_name = name, uc_description = description, uc_icon = icon,
                uc_isDefault = isDefault\<rparr>
        }))"

definition listCollections_input :: "unit option schema" where
  "listCollections_input = optional (z_object (\<lambda>prop. Some ()))"

definition createPoem_input :: "createPoemInput schema" where
  "createPoem_input =
     z_object (\<lambda>prop. do {
       collectionId \<leftarrow> optional z_string (prop ''collectionId'');
       title \<leftarrow> optional z_string (prop ''title'');
       form \<leftarrow> optional z_string (prop ''form'');
       style \<leftarrow> optional z_string (prop ''style'');
       language \<leftarrow> optional z_string (prop ''language'');
       prompt \<leftarrow> optional z_string (prop ''prompt'');
       body \<leftarrow> z_string_min 1 (prop ''body'');
       notes \<leftarrow> optional z_string (prop ''notes'');
       isFavorite \<leftarrow> optional z_boolean (prop ''isFavorite'');
       Some \<lparr>cp_collectionId = collectionId, cp_title = title, cp_form = form,
             cp_style = style, cp_language = language, cp_prompt = prompt, cp_body = body,
             cp_notes = notes, cp_isFavorite = isFavorite\<rparr>
     })"

definition updatePoem_input :: "updatePoemInput schema" where
  "updatePoem_input =
     refine
       (\<lambda>input. up_collectionId input \<noteq> Undefined \<or> up_title input \<noteq> None \<or>
                 up_form input \<noteq> None \<or> up_style input \<noteq> None \<or>
                 up_language input \<noteq> None \<or> up_prompt input \<noteq> None \<or>
                 up_body input \<noteq> None \<or> up_notes input \<noteq> None \<or>
                 up_isFavorite input \<noteq> None)
       (z_object (\<lambda>prop. do {
          id \<leftarrow> z_string_min 1 (prop ''id'');
          collectionId \<leftarrow> optional z_string (prop ''collectionId'');
          title \<leftarrow> optional z_string (prop ''title'');
          form \<leftarrow> optional z_string (prop ''form'');
          style \<leftarrow> optional z_string (prop ''style'');
          language \<leftarrow> optional z_string (prop ''language'');
          prompt \<leftarrow> optional z_string (prop ''prompt'');
          body \<leftarrow> optional z_string (prop ''body'');
          notes \<leftarrow> optional z_string (prop ''notes'');
          isFavorite \<leftarrow> optional z_boolean (prop ''isFavorite'');
          Some \<lparr>up_id = id, up_collectionId = of_optional collectionId, up_title = title,
                up_form = form, up_style = style, up_language = language,
                up_prompt = prompt, up_body = body, up_notes = notes,
                up_isFavorite = isFavorite\<rparr>
        }))"

definition deletePoem_input :: "deletePoemInput schema" where
  "deletePoem_input =
     z_object (\<lambda>prop. do {
       id \<leftarrow> z_string_min 1 (prop ''id'');
       Some \<lparr>dp_id = id\<rparr>
     })"

definition listPoems_input :: "listPoemsInput option schema" where
  "listPoems_input =
     optional (z_object (\<lambda>prop. do {
       collectionId \<leftarrow> optional z_string (prop ''collectionId'');
       favoritesOnly \<leftarrow> default_to False z_boolean (prop ''favoritesOnly'');
       Some \<lparr>lp_collectionId = collectionId, lp_favoritesOnly = favoritesOnly\<rparr>
     }))"

text \<open>
  \<^verbatim>\<open>defineAction({input, handler})\<close> of the framework: the input is parsed with the
  schema first, and the handler runs on the parsed value only; a rejected input raises
  the input error without calling the handler.
\<close>

definition defineAction :: "'i schema \<Rightarrow> ('i \<Rightarrow> 'a action) \<Rightarrow> json option \<Rightarrow> 'a action" where
  "defineAction input handler raw =
     (case input raw of None \<Rightarrow> throw ActionInputError | Some parsed \<Rightarrow> handler parsed)"

subsection \<open>The identity gate and the ownership resolver\<close>

text \<open>The request context: \<^verbatim>\<open>context.locals\<close> may be missing, and so may its
  \<^verbatim>\<open>user\<close>. Of the user only the id is read.\<close>

record user =
  user_id :: string

record Locals =
  locals_user :: "user option"

record ActionAPIContext =
  context_locals :: "Locals option"

definition requireUser :: "ActionAPIContext \<Rightarrow> error + user" where
  "requireUser context =
     (let user = (case context_locals context of None \<Rightarrow> None | Some l \<Rightarrow> locals_user l) in
      case user of
        None \<Rightarrow> Inl (ActionError UNAUTHORIZED ''You must be signed in to perform this action.'')
      | Some u \<Rightarrow> Inr u)"

definition getOwnedCollection :: "string \<Rightarrow> string \<Rightarrow> collection_row action" where
  "getOwnedCollection collectionId userId =
     await (select_PoemCollections (\<lambda>c. c_id c = collectionId \<and> c_userId c = userId))
       (\<lambda>rows. case first rows of
          None \<Rightarrow> throw (ActionError NOT_FOUND ''Collection not found.'')
        | Some collection \<Rightarrow> return collection)"

subsection \<open>Collection handlers\<close>

definition createCollection_handler ::
  "createCollectionInput \<Rightarrow> ActionAPIContext \<Rightarrow> string \<Rightarrow> int \<Rightarrow> collection_row option action" where
  "createCollection_handler input context uuid now =
     (case requireUser context of
        Inl e \<Rightarrow> throw e
      | Inr u \<Rightarrow>
          await (insert_PoemCollections
                  \<lparr>c_id = uuid, c_userId = user_id u, c_name = cc_name input,
                   c_description = cc_description input, c_icon = cc_icon input,
                   c_isDefault = (case cc_isDefault input of None \<Rightarrow> False | Some b \<Rightarrow> b),
                   c_createdAt = now, c_updatedAt = now\<rparr>)
            (\<lambda>rows. return (first rows)))"

text \<open>The set clause of \<^verbatim>\<open>updateCollection\<close>: a column is assigned when its input
  field is not \<^verbatim>\<open>undefined\<close>; \<^verbatim>\<open>updatedAt\<close> always.\<close>

definition collection_set :: "updateCollectionInput \<Rightarrow> int \<Rightarrow> collection_row \<Rightarrow> collection_row" where
  "collection_set input now r =
     r\<lparr>c_name := (case uc_name input of None \<Rightarrow> c_name r | Some v \<Rightarrow> v),
       c_description := (case uc_description input of None \<Rightarrow> c_description r | Some v \<Rightarrow> Some v),
       c_icon := (case uc_icon input of None \<Rightarrow> c_icon r | Some v \<Rightarrow> Some v),
       c_isDefault := (case uc_isDefault input of None \<Rightarrow> c_isDefault r | Some v \<Rightarrow> v),
       c_updatedAt := now\<rparr>"

definition updateCollection_handler ::
  "updateCollectionInput \<Rightarrow> ActionAPIContext \<Rightarrow> int \<Rightarrow> collection_row option action" where
  "updateCollection_handler input context now =
     (case requireUser context of
        Inl e \<Rightarrow> throw e
      | Inr u \<Rightarrow>
          await (getOwnedCollection (uc_id input) (user_id u))
            (\<lambda>_. await (update_PoemCollections (collection_set input now)
                           (\<lambda>c. c_id c = uc_id input))
                    (\<lambda>rows. return (first rows))))"

definition listCollections_handler ::
  "unit option \<Rightarrow> ActionAPIContext \<Rightarrow> (collection_row list \<times> nat) action" where
  "listCollections_handler input context =
     (case requireUser context of
        Inl e \<Rightarrow> throw e
      | Inr u \<Rightarrow>
          await (select_PoemCollections (\<lambda>c. c_userId c = user_id u))
            (\<lambda>collections. return (collections, length collections)))"

subsection \<open>Poem handlers\<close>

text \<open>\<^verbatim>\<open>if (input.collectionId)\<close> on a string or \<^verbatim>\<open>undefined\<close>: true for a string
  that is not empty.\<close>

definition truthy :: "string option \<Rightarrow> bool" where
  "truthy v = (case v of None \<Rightarrow> False | Some s \<Rightarrow> s \<noteq> [])"

definition createPoem_handler ::
  "createPoemInput \<Rightarrow> ActionAPIContext \<Rightarrow> string \<Rightarrow> int \<Rightarrow> poem_row option action" where
  "createPoem_handler input context uuid now =
     (case requireUser context of
        Inl e \<Rightarrow> throw e
      | Inr u \<Rightarrow>
          await (case cp_collectionId input of
                   None \<Rightarrow> return ()
                 | Some cid \<Rightarrow>
                     if truthy (Some cid)
                     then await (getOwnedCollection cid (user_id u)) (\<lambda>_. return ())
                     else return ())
            (\<lambda>_. await (insert_Poems
                           \<lparr>p_id = uuid, p_collectionId = cp_collectionId input,
                            p_userId = user_id u, p_title = cp_title input,
                            p_form = cp_form input, p_style = cp_style input,
                            p_language = cp_language input, p_prompt = cp_prompt input,
                            p_body = cp_body input, p_notes = cp_notes input,
                            p_isFavorite =
                              (case cp_isFavorite input of None \<Rightarrow> False | Some b \<Rightarrow> b),
                            p_createdAt = now, p_updatedAt = now\<rparr>)
                    (\<lambda>rows. return (first rows))))"

text \<open>The set clause of \<^verbatim>\<open>updatePoem\<close>. \<^verbatim>\<open>collectionId\<close> is assigned whenever the
  input field is not \<^verbatim>\<open>undefined\<close>, so a \<^verbatim>\<open>null\<close> would be written as NULL.\<close>

definition poem_set :: "updatePoemInput \<Rightarrow> int \<Rightarrow> poem_row \<Rightarrow> poem_row" where
  "poem_set input now r =
     r\<lparr>p_collectionId :=
         (case up_collectionId input of
            Undefined \<Rightarrow> p_collectionId r | Null \<Rightarrow> None | Defined v \<Rightarrow> Some v),
       p_title := (case up_title input of None \<Rightarrow> p_title r | Some v \<Rightarrow> Some v),
       p_form := (case up_form input of None \<Rightarrow> p_form r | Some v \<Rightarrow> Some v),
       p_style := (case up_style input of None \<Rightarrow> p_style r | Some v \<Rightarrow> Some v),
       p_language := (case up_language input of None \<Rightarrow> p_language r | Some v \<Rightarrow> Some v),
       p_prompt := (case up_prompt input of None \<Rightarrow> p_prompt r | Some v \<Rightarrow> Some v),
       p_body := (case up_body input of None \<Rightarrow> p_body r | Some v \<Rightarrow> v),
       p_notes := (case up_notes input of None \<Rightarrow> p_notes r | Some v \<Rightarrow> Some v),
       p_isFavorite := (case up_isFavorite input of None \<Rightarrow> p_isFavorite r | Some v \<Rightarrow> v),
       p_updatedAt := now\<rparr>"

definition updatePoem_handler ::
  "updatePoemInput \<Rightarrow> ActionAPIContext \<Rightarrow> int \<Rightarrow> poem_row option action" where
  "updatePoem_handler input context now =
     (case requireUser context of
        Inl e \<Rightarrow> throw e
      | Inr u \<Rightarrow>
          await (select_Poems (\<lambda>p. p_id p = up_id input \<and> p_userId p = user_id u))
            (\<lambda>rows. case first rows of
               None \<Rightarrow> throw (ActionError NOT_FOUND ''Poem not found.'')
             | Some existing \<Rightarrow>
                 await (case up_collectionId input of
                          Defined cid \<Rightarrow>
                            await (getOwnedCollection cid (user_id u)) (\<lambda>_. return ())
                        | _ \<Rightarrow> return ())
                   (\<lambda>_. await (update_Poems (poem_set input now) (\<lambda>p. p_id p = up_id input))
                           (\<lambda>rows. return (first rows)))))"

definition deletePoem_handler :: "deletePoemInput \<Rightarrow> ActionAPIContext \<Rightarrow> unit action" where
  "deletePoem_handler input context =
     (case requireUser context of
        Inl e \<Rightarrow> throw e
      | Inr u \<Rightarrow>
          await (delete_Poems (\<lambda>p. p_id p = dp_id input \<and> p_userId p = user_id u))
            (\<lambda>rowsAffected.
               if rowsAffected = 0 then throw (ActionError NOT_FOUND ''Poem not found.'')
               else return ()))"

text \<open>\<^verbatim>\<open>and(...filters)\<close>.\<close>

definition and_filters :: "('a \<Rightarrow> bool) list \<Rightarrow> 'a \<Rightarrow> bool" where
  "and_filters filters r = list_all (\<lambda>f. f r) filters"

definition listPoems_handler ::
  "listPoemsInput option \<Rightarrow> ActionAPIContext \<Rightarrow> (poem_row list \<times> nat) action" where
  "listPoems_handler input context =
     (case requireUser context of
        Inl e \<Rightarrow> throw e
      | Inr u \<Rightarrow>
          (let filters = [\<lambda>p. p_userId p = user_id u];
               collectionId = (case input of None \<Rightarrow> None | Some i \<Rightarrow> lp_collectionId i);
               favoritesOnly = (case input of None \<Rightarrow> False | Some i \<Rightarrow> lp_favoritesOnly i)
           in await (case collectionId of
                       None \<Rightarrow> return filters
                     | Some cid \<Rightarrow>
                         if truthy (Some cid)
                         then await (getOwnedCollection cid (user_id u))
                                (\<lambda>_. return (filters @ [\<lambda>p. p_collectionId p = Some cid]))
                         else return filters)
                (\<lambda>filters.
                   await (select_Poems
                           (and_filters
                              (if favoritesOnly then filters @ [\<lambda>p. p_isFavorite p]
                               else filters)))
                     (\<lambda>poems. return (poems, length poems)))))"

subsection \<open>The exported actions\<close>

definition createCollection ::
  "json option \<Rightarrow> ActionAPIContext \<Rightarrow> string \<Rightarrow> int \<Rightarrow> collection_row option action" where
  "createCollection raw context uuid now =
     defineAction createCollection_input
       (\<lambda>input. createCollection_handler input context uuid now) raw"

definition updateCollection ::
  "json option \<Rightarrow> ActionAPIContext \<Rightarrow> int \<Rightarrow> collection_row option action" where
  "updateCollection raw context now =
     defineAction updateCollection_input
       (\<lambda>input. updateCollection_handler input context now) raw"

definition listCollections ::
  "json option \<Rightarrow> ActionAPIContext \<Rightarrow> (collection_row list \<times> nat) action" where
  "listCollections raw context =
     defineAction listCollections_input (\<lambda>input. listCollections_handler input context) raw"

definition createPoem ::
  "json option \<Rightarrow> ActionAPIContext \<Rightarrow> string \<Rightarrow> int \<Rightarrow> poem_row option action" where
  "createPoem raw context uuid now =
     defineAction createPoem_input (\<lambda>input. createPoem_handler input context uuid now) raw"

definition updatePoem :: "json option \<Rightarrow> ActionAPIContext \<Rightarrow> int \<Rightarrow> poem_row option action" where
  "updatePoem raw context now =
     defineAction updatePoem_input (\<lambda>input. updatePoem_handler input context now) raw"

definition deletePoem :: "json option \<Rightarrow> ActionAPIContext \<Rightarrow> unit action" where
  "deletePoem raw context =
     defineAction deletePoem_input (\<lambda>input. deletePoem_handler input context) raw"

definition listPoems :: "json option \<Rightarrow> ActionAPIContext \<Rightarrow> (poem_row list \<times> nat) action" where
  "listPoems raw context =
     defineAction listPoems_input (\<lambda>input. listPoems_handler input context) raw"

text \<open>The whole surface as one function of the request: \<^verbatim>\<open>server\<close> has these seven
  actions and no other.\<close>

datatype request =
  CreateCollection "json option"
  | UpdateCollection "json option"
  | ListCollections "json option"
  | CreatePoem "json option"
  | UpdatePoem "json option"
  | DeletePoem "json option"
  | ListPoems "json option"

datatype response =
  CollectionData "collection_row option"
  | CollectionItems "collection_row list" nat
  | PoemData "poem_row option"
  | PoemItems "poem_row list" nat
  | Success

fun server :: "request \<Rightarrow> ActionAPIContext \<Rightarrow> string \<Rightarrow> int \<Rightarrow> response action" where
  "server (CreateCollection raw) context uuid now =
     await (createCollection raw context uuid now) (\<lambda>c. return (CollectionData c))"
| "server (UpdateCollection raw) context uuid now =
     await (updateCollection raw context now) (\<lambda>c. return (CollectionData c))"
| "server (ListCollections raw) context uuid now =
     await (listCollections raw context) (\<lambda>(items, total). return (CollectionItems items total))"
| "server (CreatePoem raw) context uuid now =
     await (createPoem raw context uuid now) (\<lambda>p. return (PoemData p))"
| "server (UpdatePoem raw) context uuid now =
     await (updatePoem raw context now) (\<lambda>p. return (PoemData p))"
| "server (DeletePoem raw) context uuid now =
     await (deletePoem raw context) (\<lambda>_. return Success)"
| "server (ListPoems raw) context uuid now =
     await (listPoems raw context) (\<lambda>(items, total). return (PoemItems items total))"

text \<open>Whether the input of a request passes the schema of its action, which
  \<^verbatim>\<open>defineAction\<close> decides before the handler is called.\<close>

fun schema_accepts :: "request \<Rightarrow> bool" where
  "schema_accepts (CreateCollection raw) = (createCollection_input raw \<noteq> None)"
| "schema_accepts (UpdateCollection raw) = (updateCollection_input raw \<noteq> None)"
| "schema_accepts (ListCollections raw) = (listCollections_input raw \<noteq> None)"
| "schema_accepts (CreatePoem raw) = (createPoem_input raw \<noteq> None)"
| "schema_accepts (UpdatePoem raw) = (updatePoem_input raw \<noteq> None)"
| "schema_accepts (DeletePoem raw) = (deletePoem_input raw \<noteq> None)"
| "schema_accepts (ListPoems raw) = (listPoems_input raw \<noteq> None)"

text \<open>The primary keys of both tables are distinct: what the store maintains, and what
  every handler preserves.\<close>

definition primary_keys :: "db \<Rightarrow> bool" where
  "primary_keys d =
     (distinct (map c_id (PoemCollections d)) \<and> distinct (map p_id (Poems d)))"

subsection \<open>A small store to run the handlers on\<close>

text \<open>Two signed-in users, a request without a user, and a store in which each user owns
  one collection and one poem.\<close>

definition anonymous :: ActionAPIContext where
  "anonymous = \<lparr>context_locals = None\<rparr>"

definition alice :: ActionAPIContext where
  "alice = \<lparr>context_locals = Some \<lparr>locals_user = Some \<lparr>user_id = ''alice''\<rparr>\<rparr>\<rparr>"

definition bob :: ActionAPIContext where
  "bob = \<lparr>context_locals = Some \<lparr>locals_user = Some \<lparr>user_id = ''bob''\<rparr>\<rparr>\<rparr>"

definition nature :: collection_row where
  "nature = \<lparr>c_id = ''c1'', c_userId = ''alice'', c_name = ''Nature'', c_description = None,
     c_icon = Some ''leaf'', c_isDefault = False, c_createdAt = 1, c_updatedAt = 1\<rparr>"

definition limericks :: collection_row where
  "limericks = \<lparr>c_id = ''c2'', c_userId = ''bob'', c_name = ''Limericks'',
     c_description = None, c_icon = None, c_isDefault = True, c_createdAt = 2,
     c_updatedAt = 2\<rparr>"

definition old_pond :: poem_row where
  "old_pond = \<lparr>p_id = ''p1'', p_collectionId = Some ''c1'', p_userId = ''alice'',
     p_title = Some ''Frog'', p_form = Some ''haiku'', p_style = None, p_language = None,
     p_prompt = None, p_body = ''old pond'', p_notes = None, p_isFavorite = False,
     p_createdAt = 3, p_updatedAt = 3\<rparr>"

definition there_once :: poem_row where
  "there_once = \<lparr>p_id = ''p2'', p_collectionId = None, p_userId = ''bob'',
     p_title = None, p_form = None, p_style = None, p_language = None,
     p_prompt = None, p_body = ''there once was'', p_notes = None, p_isFavorite = True,
     p_createdAt = 4, p_updatedAt = 4\<rparr>"

definition studio :: "bool \<Rightarrow> db" where
  "studio fk = \<lparr>PoemCollections = [nature, limericks], Poems = [old_pond, there_once],
     foreign_keys = fk, statements = []\<rparr>"

section \<open>Properties\<close>

lemmas action_defs = return_def throw_def await_def

lemmas store_defs = issue_def first_def select_PoemCollections_def select_Poems_def
  insert_PoemCollections_def insert_Poems_def update_PoemCollections_def update_Poems_def
  delete_Poems_def reference_ok_def

lemmas handler_defs = createCollection_handler_def updateCollection_handler_def
  listCollections_handler_def createPoem_handler_def updatePoem_handler_def
  deletePoem_handler_def listPoems_handler_def getOwnedCollection_def requireUser_def
  truthy_def and_filters_def collection_set_def poem_set_def

lemmas export_defs = createCollection_def updateCollection_def listCollections_def
  createPoem_def updatePoem_def deletePoem_def listPoems_def defineAction_def

lemmas schema_defs = z_string_def z_string_min_def z_boolean_def optional_def default_to_def
  z_object_def refine_def of_optional_def createCollection_input_def
  updateCollection_input_def listCollections_input_def createPoem_input_def
  updatePoem_input_def deletePoem_input_def listPoems_input_def

lemmas fixture_defs = anonymous_def alice_def bob_def nature_def limericks_def old_pond_def
  there_once_def studio_def

subsection \<open>Lists with a key\<close>

lemma filter_Cons_nth:
  assumes "filter P rows = r # rs"
  shows "\<exists>i<length rows. rows ! i = r \<and> P r"
proof -
  have "r \<in> set (filter P rows)" using assms by simp
  then have "r \<in> set rows" and "P r" by simp_all
  then show ?thesis by (auto simp: in_set_conv_nth)
qed

lemma filter_Cons_list_ex:
  "filter P rows = r # rs \<Longrightarrow> list_ex P rows"
  by (metis filter_empty_conv list.distinct(1) list_ex_iff)

lemma same_key_same_row:
  assumes "distinct (map key rows)" and "x \<in> set rows" and "y \<in> set rows"
    and "key x = key y"
  shows "x = y"
  using assms by (meson distinct_map inj_onD)

lemma distinct_key_filter:
  assumes "distinct (map key rows)" and "i < length rows"
  shows "filter (\<lambda>x. key x = key (rows ! i)) rows = [rows ! i]"
  using assms
proof (induction rows arbitrary: i)
  case Nil
  then show ?case by simp
next
  case (Cons a rows)
  show ?case
  proof (cases i)
    case 0
    have "key a \<notin> key ` set rows"
      using Cons.prems(1) by simp
    then have "filter (\<lambda>x. key x = key a) rows = []"
      unfolding filter_empty_conv by (metis imageI)
    with 0 show ?thesis by simp
  next
    case (Suc j)
    with Cons.prems have j: "j < length rows" and d: "distinct (map key rows)"
      and "key a \<notin> key ` set rows" by simp_all
    then have "key a \<noteq> key (rows ! j)" by (metis imageI nth_mem)
    with Cons.IH [OF d j] Suc show ?thesis by simp
  qed
qed

lemma distinct_key_map:
  assumes "distinct (map key rows)" and "i < length rows"
  shows "map (\<lambda>x. if key x = key (rows ! i) then f x else x) rows = rows[i := f (rows ! i)]"
proof (rule nth_equalityI)
  show "length (map (\<lambda>x. if key x = key (rows ! i) then f x else x) rows) =
        length (rows[i := f (rows ! i)])"
    by simp
next
  fix j
  assume "j < length (map (\<lambda>x. if key x = key (rows ! i) then f x else x) rows)"
  then have j: "j < length rows" by simp
  have "key (rows ! j) = key (rows ! i) \<longleftrightarrow> j = i"
    using assms j nth_eq_iff_index_eq [of "map key rows" j i] by simp
  with j assms(2)
  show "map (\<lambda>x. if key x = key (rows ! i) then f x else x) rows ! j =
        rows[i := f (rows ! i)] ! j"
    by (simp add: nth_list_update)
qed

subsection \<open>What each handler does to the store\<close>

lemma getOwnedCollection_eq:
  "getOwnedCollection cid uid d =
     ((case filter (\<lambda>c. c_id c = cid \<and> c_userId c = uid) (PoemCollections d) of
         [] \<Rightarrow> Inl (ActionError NOT_FOUND ''Collection not found.'')
       | c # _ \<Rightarrow> Inr c),
      issue (SelectFrom TPoemCollections) d)"
  by (simp add: getOwnedCollection_def action_defs select_PoemCollections_def first_def
      split: list.splits)

lemma requireUser_no_user:
  assumes "ctx = \<lparr>context_locals = None\<rparr> \<or>
           ctx = \<lparr>context_locals = Some \<lparr>locals_user = None\<rparr>\<rparr>"
  shows "requireUser ctx =
           Inl (ActionError UNAUTHORIZED ''You must be signed in to perform this action.'')"
  using assms by (auto simp: requireUser_def)

lemma handler_unauthorized:
  assumes "requireUser ctx = Inl e"
  shows "createCollection_handler i1 ctx uuid now d = (Inl e, d)"
    and "updateCollection_handler i2 ctx now d = (Inl e, d)"
    and "listCollections_handler i3 ctx d = (Inl e, d)"
    and "createPoem_handler i4 ctx uuid now d = (Inl e, d)"
    and "updatePoem_handler i5 ctx now d = (Inl e, d)"
    and "deletePoem_handler i6 ctx d = (Inl e, d)"
    and "listPoems_handler i7 ctx d = (Inl e, d)"
  using assms
  by (simp_all add: createCollection_handler_def updateCollection_handler_def
      listCollections_handler_def createPoem_handler_def updatePoem_handler_def
      deletePoem_handler_def listPoems_handler_def throw_def)

lemma defineAction_cases:
  assumes "defineAction sch handler raw d = (res, d')"
  obtains "res = Inl ActionInputError" and "d' = d"
  | input where "sch raw = Some input" and "handler input d = (res, d')"
  using assms by (auto simp: defineAction_def throw_def split: option.splits)

lemma collection_set_ids:
  "map c_id (map (\<lambda>r. if cond r then collection_set input now r else r) rows) = map c_id rows"
  by (induction rows) (simp_all add: collection_set_def)

lemma poem_set_ids:
  "map p_id (map (\<lambda>r. if cond r then poem_set input now r else r) rows) = map p_id rows"
  by (induction rows) (simp_all add: poem_set_def)

lemma createCollection_handler_tables:
  "createCollection_handler input ctx uuid now d = (res, d') \<Longrightarrow>
   Poems d' = Poems d \<and>
   (PoemCollections d' = PoemCollections d \<or>
    (\<exists>row. PoemCollections d' = PoemCollections d @ [row] \<and>
       c_id row \<notin> set (map c_id (PoemCollections d))))"
  by (auto simp: createCollection_handler_def action_defs insert_PoemCollections_def issue_def
      Let_def split: sum.splits if_splits)

lemma updateCollection_handler_tables:
  "updateCollection_handler input ctx now d = (res, d') \<Longrightarrow>
   Poems d' = Poems d \<and> map c_id (PoemCollections d') = map c_id (PoemCollections d)"
  by (auto simp: updateCollection_handler_def action_defs getOwnedCollection_eq
      update_PoemCollections_def issue_def collection_set_ids simp del: map_map
      split: sum.splits list.splits)

lemma listCollections_handler_tables:
  "listCollections_handler input ctx d = (res, d') \<Longrightarrow>
   Poems d' = Poems d \<and> PoemCollections d' = PoemCollections d"
  by (auto simp: listCollections_handler_def action_defs select_PoemCollections_def issue_def
      split: sum.splits)

lemma createPoem_handler_tables:
  "createPoem_handler input ctx uuid now d = (res, d') \<Longrightarrow>
   PoemCollections d' = PoemCollections d \<and>
   (Poems d' = Poems d \<or>
    (\<exists>row. Poems d' = Poems d @ [row] \<and> p_id row \<notin> set (map p_id (Poems d))))"
  by (auto simp: createPoem_handler_def action_defs insert_Poems_def issue_def
      getOwnedCollection_eq Let_def split: sum.splits if_splits option.splits list.splits)

lemma updatePoem_handler_failure:
  "updatePoem_handler input ctx now d = (Inl e, d') \<Longrightarrow>
   Poems d' = Poems d \<and> PoemCollections d' = PoemCollections d"
  by (auto simp: updatePoem_handler_def action_defs select_Poems_def first_def
      getOwnedCollection_eq update_Poems_def issue_def Let_def
      split: sum.splits list.splits nullable.splits if_splits)

lemma deletePoem_handler_tables:
  "deletePoem_handler input ctx d = (res, d') \<Longrightarrow>
   PoemCollections d' = PoemCollections d \<and> (\<exists>cond. Poems d' = filter cond (Poems d))"
proof (cases "requireUser ctx")
  case (Inl e)
  assume "deletePoem_handler input ctx d = (res, d')"
  with handler_unauthorized(6) [OF Inl, of input d] have "d' = d" by simp
  moreover have "Poems d = filter (\<lambda>_. True) (Poems d)" by simp
  ultimately show ?thesis by metis
next
  case (Inr u)
  assume "deletePoem_handler input ctx d = (res, d')"
  then have "PoemCollections d' = PoemCollections d \<and>
     Poems d' = filter (\<lambda>r. \<not> (p_id r = dp_id input \<and> p_userId r = user_id u)) (Poems d)"
    using Inr
    by (auto simp: deletePoem_handler_def action_defs delete_Poems_def issue_def
        split: if_splits)
  then show ?thesis by blast
qed

lemma listPoems_handler_tables:
  "listPoems_handler input ctx d = (res, d') \<Longrightarrow>
   Poems d' = Poems d \<and> PoemCollections d' = PoemCollections d"
  by (auto simp: listPoems_handler_def action_defs select_Poems_def issue_def
      getOwnedCollection_eq Let_def split: sum.splits option.splits if_splits list.splits)

lemma updateCollection_handler_effect:
  assumes "requireUser ctx = Inr u" and "distinct (map c_id (PoemCollections d))"
    and "updateCollection_handler input ctx now d = (Inr res, d')"
  shows "\<exists>i<length (PoemCollections d).
           c_id (PoemCollections d ! i) = uc_id input \<and>
           c_userId (PoemCollections d ! i) = user_id u \<and>
           res = Some (collection_set input now (PoemCollections d ! i)) \<and>
           d' = d\<lparr>PoemCollections :=
                    (PoemCollections d)[i := collection_set input now (PoemCollections d ! i)],
                  statements :=
                    statements d @ [SelectFrom TPoemCollections, Update TPoemCollections]\<rparr>"
proof -
  let ?own = "\<lambda>c. c_id c = uc_id input \<and> c_userId c = user_id u"
  obtain r rs where f: "filter ?own (PoemCollections d) = r # rs"
    using assms(1,3)
    by (cases "filter ?own (PoemCollections d)")
      (simp_all add: updateCollection_handler_def getOwnedCollection_eq action_defs)
  from filter_Cons_nth [OF f] obtain i where i: "i < length (PoemCollections d)"
    and r: "PoemCollections d ! i = r" and o: "?own r" by blast
  have k: "uc_id input = c_id (PoemCollections d ! i)" using r o by simp
  have "updateCollection_handler input ctx now d =
     (Inr (first (map (collection_set input now)
                   (filter (\<lambda>c. c_id c = uc_id input) (PoemCollections d)))),
      d\<lparr>PoemCollections :=
           map (\<lambda>r. if c_id r = uc_id input then collection_set input now r else r)
             (PoemCollections d),
        statements := statements d @ [SelectFrom TPoemCollections, Update TPoemCollections]\<rparr>)"
    using assms(1) f
    by (simp add: updateCollection_handler_def getOwnedCollection_eq action_defs
        update_PoemCollections_def issue_def)
  then have "updateCollection_handler input ctx now d =
     (Inr (Some (collection_set input now (PoemCollections d ! i))),
      d\<lparr>PoemCollections :=
           (PoemCollections d)[i := collection_set input now (PoemCollections d ! i)],
        statements := statements d @ [SelectFrom TPoemCollections, Update TPoemCollections]\<rparr>)"
    unfolding k
    by (simp only: distinct_key_filter [OF assms(2) i] distinct_key_map [OF assms(2) i])
       (simp add: first_def)
  with assms(3) i r o show ?thesis by auto
qed

lemma updatePoem_handler_effect:
  assumes "requireUser ctx = Inr u" and "distinct (map p_id (Poems d))"
    and "updatePoem_handler input ctx now d = (Inr res, d')"
  shows "\<exists>i<length (Poems d).
           p_id (Poems d ! i) = up_id input \<and>
           p_userId (Poems d ! i) = user_id u \<and>
           res = Some (poem_set input now (Poems d ! i)) \<and>
           Poems d' = (Poems d)[i := poem_set input now (Poems d ! i)] \<and>
           PoemCollections d' = PoemCollections d \<and>
           (\<forall>cid. up_collectionId input = Defined cid \<longrightarrow>
              list_ex (\<lambda>c. c_id c = cid \<and> c_userId c = user_id u) (PoemCollections d))"
proof -
  let ?own = "\<lambda>p. p_id p = up_id input \<and> p_userId p = user_id u"
  obtain r rs where f: "filter ?own (Poems d) = r # rs"
    using assms(1,3)
    by (cases "filter ?own (Poems d)")
      (simp_all add: updatePoem_handler_def action_defs select_Poems_def first_def)
  from filter_Cons_nth [OF f] obtain i where i: "i < length (Poems d)"
    and r: "Poems d ! i = r" and o: "?own r" by blast
  have k: "up_id input = p_id (Poems d ! i)" using r o by simp
  have c: "\<forall>cid. up_collectionId input = Defined cid \<longrightarrow>
              list_ex (\<lambda>c. c_id c = cid \<and> c_userId c = user_id u) (PoemCollections d)"
    using assms(1,3) f
    by (auto simp: updatePoem_handler_def action_defs select_Poems_def first_def issue_def
        getOwnedCollection_eq split: list.splits dest: filter_Cons_list_ex)
  have "res = first (map (poem_set input now)
                      (filter (\<lambda>p. p_id p = up_id input) (Poems d))) \<and>
        Poems d' =
          map (\<lambda>r. if p_id r = up_id input then poem_set input now r else r) (Poems d) \<and>
        PoemCollections d' = PoemCollections d"
    using assms(1,3) f
    by (auto simp: updatePoem_handler_def action_defs select_Poems_def first_def
        getOwnedCollection_eq update_Poems_def issue_def Let_def
        split: list.splits nullable.splits if_splits)
  then have "res = Some (poem_set input now (Poems d ! i)) \<and>
        Poems d' = (Poems d)[i := poem_set input now (Poems d ! i)] \<and>
        PoemCollections d' = PoemCollections d"
    unfolding k
    by (simp only: distinct_key_filter [OF assms(2) i] distinct_key_map [OF assms(2) i])
       (simp add: first_def)
  with c i r o show ?thesis by auto
qed

subsection \<open>The schema of \<^verbatim>\<open>updatePoem\<close> and \<^verbatim>\<open>null\<close>\<close>

lemma updatePoem_input_not_Null:
  "updatePoem_input raw = Some input \<Longrightarrow> up_collectionId input \<noteq> Null"
  by (auto simp: updatePoem_input_def refine_def z_object_def of_optional_def
      split: option.splits json.splits if_splits Option.bind_splits)

lemma updatePoem_input_rejects_null:
  "map_of kvs ''collectionId'' = Some JNull \<Longrightarrow> updatePoem_input (Some (JObj kvs)) = None"
  by (cases "z_string_min 1 (map_of kvs ''id'')")
    (simp_all add: updatePoem_input_def refine_def z_object_def optional_def z_string_def)

subsection \<open>Filing a new poem\<close>

text \<open>
  The part of the check in \<^verbatim>\<open>createPoem\<close> that works: a collection id that is not
  the empty string and names no collection of the caller ends the handler with
  \<^verbatim>\<open>NOT_FOUND\<close> after the one select, before any insert.
\<close>

lemma createPoem_handler_unowned:
  assumes "requireUser ctx = Inr u" and "cp_collectionId input = Some cid" and "cid \<noteq> []"
    and "\<not> list_ex (\<lambda>c. c_id c = cid \<and> c_userId c = user_id u) (PoemCollections d)"
  shows "createPoem_handler input ctx uuid now d =
           (Inl (ActionError NOT_FOUND ''Collection not found.''),
            d\<lparr>statements := statements d @ [SelectFrom TPoemCollections]\<rparr>)"
proof -
  have "filter (\<lambda>c. c_id c = cid \<and> c_userId c = user_id u) (PoemCollections d) = []"
    using assms(4) by (simp add: list_ex_iff filter_empty_conv)
  with assms(1-3) show ?thesis
    by (simp add: createPoem_handler_def getOwnedCollection_eq action_defs truthy_def
        issue_def)
qed

text \<open>
  Claim C1. A \<^verbatim>\<open>createPoem\<close> request that supplies a collection id is to fail with
  \<^verbatim>\<open>NOT_FOUND\<close>, inserting nothing, when the caller owns no collection with that id.
  The handler does not do so for the empty string: \<^verbatim>\<open>if (input.collectionId)\<close> is false
  for it, so the resolver is skipped, while \<^verbatim>\<open>input.collectionId ?? null\<close> still writes
  it. With alice owning only collection \<open>c1\<close>, her request
  \<^verbatim>\<open>{body: "x", collectionId: ""}\<close> inserts a poem whose \<^verbatim>\<open>collectionId\<close> is the empty
  string when the store does not enforce the reference, and ends in the store's
  constraint violation when it does; in neither case with \<^verbatim>\<open>NOT_FOUND\<close>. The sibling
  \<^verbatim>\<open>updatePoem\<close> sends the same id through the resolver and fails with
  \<^verbatim>\<open>NOT_FOUND\<close>.
\<close>

theorem createPoem_empty_collectionId_not_resolved:
  "createPoem (Some (JObj [(''body'', JStr ''x''), (''collectionId'', JStr '''')]))
     alice ''p3'' 9 (studio False) =
     (Inr (Some \<lparr>p_id = ''p3'', p_collectionId = Some '''', p_userId = ''alice'',
                 p_title = None, p_form = None, p_style = None, p_language = None,
                 p_prompt = None, p_body = ''x'', p_notes = None, p_isFavorite = False,
                 p_createdAt = 9, p_updatedAt = 9\<rparr>),
      \<lparr>PoemCollections = [nature, limericks],
       Poems = [old_pond, there_once,
                \<lparr>p_id = ''p3'', p_collectionId = Some '''', p_userId = ''alice'',
                 p_title = None, p_form = None, p_style = None, p_language = None,
                 p_prompt = None, p_body = ''x'', p_notes = None, p_isFavorite = False,
                 p_createdAt = 9, p_updatedAt = 9\<rparr>],
       foreign_keys = False, statements = [InsertInto TPoems]\<rparr>) \<and>
   createPoem (Some (JObj [(''body'', JStr ''x''), (''collectionId'', JStr '''')]))
     alice ''p3'' 9 (studio True) =
     (Inl ConstraintViolation,
      \<lparr>PoemCollections = [nature, limericks], Poems = [old_pond, there_once],
       foreign_keys = True, statements = [InsertInto TPoems]\<rparr>) \<and>
   fst (updatePoem (Some (JObj [(''id'', JStr ''p1''), (''collectionId'', JStr '''')]))
          alice 9 (studio False)) =
     Inl (ActionError NOT_FOUND ''Collection not found.'')"
  by (simp add: export_defs schema_defs handler_defs action_defs store_defs fixture_defs)

subsection \<open>Listing poems of a collection\<close>

text \<open>
  Claim C2 as stated fails: a \<^verbatim>\<open>listPoems\<close> request with the empty string as
  \<^verbatim>\<open>collectionId\<close>, which names no collection of alice, does not fail with
  \<^verbatim>\<open>NOT_FOUND\<close>. The guard \<^verbatim>\<open>if (input?.collectionId)\<close> skips both the resolver and
  the filter, and the request lists all of alice's poems.
\<close>

theorem listPoems_empty_collectionId_counterexample:
  "map c_id (PoemCollections (studio True)) = [''c1'', ''c2''] \<and>
   listPoems (Some (JObj [(''collectionId'', JStr '''')])) alice (studio True) =
     (Inr ([old_pond], 1),
      \<lparr>PoemCollections = [nature, limericks], Poems = [old_pond, there_once],
       foreign_keys = True, statements = [SelectFrom TPoems]\<rparr>)"
  by (simp add: export_defs schema_defs handler_defs action_defs store_defs fixture_defs)

text \<open>
  Claim C2, amended. For every \<^verbatim>\<open>listPoems\<close> request of a signed-in caller whose
  \<^verbatim>\<open>collectionId\<close> is a string other than the empty one and names no collection owned
  by the caller (one that does not exist, or one of another user), the handler fails
  with \<^verbatim>\<open>NOT_FOUND\<close> instead of returning a list, and the check comes before any
  filtering of poems: the only statement issued is the select on the collections.
\<close>

theorem listPoems_unowned_collection_not_found:
  assumes "requireUser ctx = Inr u"
    and "lp_collectionId input = Some cid" and "cid \<noteq> []"
    and "\<not> list_ex (\<lambda>c. c_id c = cid \<and> c_userId c = user_id u) (PoemCollections d)"
  shows "listPoems_handler (Some input) ctx d =
           (Inl (ActionError NOT_FOUND ''Collection not found.''),
            d\<lparr>statements := statements d @ [SelectFrom TPoemCollections]\<rparr>)"
proof -
  have "filter (\<lambda>c. c_id c = cid \<and> c_userId c = user_id u) (PoemCollections d) = []"
    using assms(4) by (simp add: list_ex_iff filter_empty_conv)
  with assms(1-3) show ?thesis
    by (simp add: listPoems_handler_def getOwnedCollection_eq action_defs truthy_def
        issue_def)
qed

theorem listPoems_unowned_collection_not_found_witness:
  "requireUser bob = Inr \<lparr>user_id = ''bob''\<rparr> \<and>
   \<not> list_ex (\<lambda>c. c_id c = ''c1'' \<and> c_userId c = ''bob'') (PoemCollections (studio True)) \<and>
   \<not> list_ex (\<lambda>c. c_id c = ''c7'' \<and> c_userId c = ''bob'') (PoemCollections (studio True)) \<and>
   listPoems_handler (Some \<lparr>lp_collectionId = Some ''c1'', lp_favoritesOnly = False\<rparr>)
     bob (studio True) =
     (Inl (ActionError NOT_FOUND ''Collection not found.''),
      \<lparr>PoemCollections = [nature, limericks], Poems = [old_pond, there_once],
       foreign_keys = True, statements = [SelectFrom TPoemCollections]\<rparr>) \<and>
   listPoems_handler (Some \<lparr>lp_collectionId = Some ''c7'', lp_favoritesOnly = True\<rparr>)
     bob (studio True) =
     (Inl (ActionError NOT_FOUND ''Collection not found.''),
      \<lparr>PoemCollections = [nature, limericks], Poems = [old_pond, there_once],
       foreign_keys = True, statements = [SelectFrom TPoemCollections]\<rparr>)"
  using
    listPoems_unowned_collection_not_found [of bob "\<lparr>user_id = ''bob''\<rparr>"
      "\<lparr>lp_collectionId = Some ''c1'', lp_favoritesOnly = False\<rparr>" "''c1''" "studio True"]
    listPoems_unowned_collection_not_found [of bob "\<lparr>user_id = ''bob''\<rparr>"
      "\<lparr>lp_collectionId = Some ''c7'', lp_favoritesOnly = True\<rparr>" "''c7''" "studio True"]
  by (simp add: requireUser_def fixture_defs)

text \<open>The empty string as \<^verbatim>\<open>collectionId\<close> is no filter, for every caller and store:
  the handler does what it does when the field is absent.\<close>

lemma listPoems_empty_collectionId_no_filter:
  "listPoems_handler (Some \<lparr>lp_collectionId = Some '''', lp_favoritesOnly = f\<rparr>) ctx d =
   listPoems_handler (Some \<lparr>lp_collectionId = None, lp_favoritesOnly = f\<rparr>) ctx d"
  by (cases "requireUser ctx") (simp_all add: listPoems_handler_def truthy_def Let_def)

subsection \<open>Re-filing a poem\<close>

text \<open>
  Claim C3. For every \<^verbatim>\<open>updatePoem\<close> request of a signed-in caller that supplies a
  \<^verbatim>\<open>collectionId\<close> naming no collection owned by the caller, the handler fails with
  \<^verbatim>\<open>NOT_FOUND\<close> (for the poem when the caller does not own the target poem, for the
  collection otherwise) and both tables are as before: no row of \<^verbatim>\<open>Poems\<close>, the
  targeted one included, has any field changed, \<^verbatim>\<open>updatedAt\<close> included.
\<close>

theorem updatePoem_unowned_collection_changes_nothing:
  assumes "requireUser ctx = Inr u"
    and "up_collectionId input = Defined cid"
    and "\<not> list_ex (\<lambda>c. c_id c = cid \<and> c_userId c = user_id u) (PoemCollections d)"
  shows "(fst (updatePoem_handler input ctx now d) =
            Inl (ActionError NOT_FOUND ''Poem not found.'') \<or>
          fst (updatePoem_handler input ctx now d) =
            Inl (ActionError NOT_FOUND ''Collection not found.'')) \<and>
         Poems (snd (updatePoem_handler input ctx now d)) = Poems d \<and>
         PoemCollections (snd (updatePoem_handler input ctx now d)) = PoemCollections d"
proof -
  have "filter (\<lambda>c. c_id c = cid \<and> c_userId c = user_id u) (PoemCollections d) = []"
    using assms(3) by (simp add: list_ex_iff filter_empty_conv)
  with assms(1,2) show ?thesis
    by (simp add: updatePoem_handler_def getOwnedCollection_eq action_defs select_Poems_def
        first_def issue_def split: list.splits)
qed

theorem updatePoem_unowned_collection_changes_nothing_witness:
  "requireUser alice = Inr \<lparr>user_id = ''alice''\<rparr> \<and>
   \<not> list_ex (\<lambda>c. c_id c = ''c2'' \<and> c_userId c = ''alice'') (PoemCollections (studio True)) \<and>
   updatePoem_handler
     \<lparr>up_id = ''p1'', up_collectionId = Defined ''c2'', up_title = Some ''Pond'',
      up_form = None, up_style = None, up_language = None, up_prompt = None, up_body = None,
      up_notes = None, up_isFavorite = Some True\<rparr> alice 9 (studio True) =
     (Inl (ActionError NOT_FOUND ''Collection not found.''),
      \<lparr>PoemCollections = [nature, limericks], Poems = [old_pond, there_once],
       foreign_keys = True, statements = [SelectFrom TPoems, SelectFrom TPoemCollections]\<rparr>)"
  using updatePoem_unowned_collection_changes_nothing [of alice "\<lparr>user_id = ''alice''\<rparr>"
      "\<lparr>up_id = ''p1'', up_collectionId = Defined ''c2'', up_title = Some ''Pond'',
        up_form = None, up_style = None, up_language = None, up_prompt = None,
        up_body = None, up_notes = None, up_isFavorite = Some True\<rparr>" "''c2''"
      "studio True" 9]
  by (simp add: handler_defs action_defs store_defs fixture_defs)

subsection \<open>Updates without a field\<close>

text \<open>
  Claim C4. An \<^verbatim>\<open>updateCollection\<close> or \<^verbatim>\<open>updatePoem\<close> request whose input object
  has none of the mutable fields (with or without a target id) is rejected by the input
  schema: the action ends with the input error and the store it returns is the store it
  was given, statement list included, so nothing was read or written.
\<close>

theorem update_without_fields_rejected:
  assumes "\<forall>k\<in>{''name'', ''description'', ''icon'', ''isDefault''}. map_of kvs k = None"
    and "\<forall>k\<in>{''collectionId'', ''title'', ''form'', ''style'', ''language'', ''prompt'',
               ''body'', ''notes'', ''isFavorite''}. map_of kvs' k = None"
  shows "updateCollection (Some (JObj kvs)) ctx now d = (Inl ActionInputError, d) \<and>
         updatePoem (Some (JObj kvs')) ctx now d = (Inl ActionInputError, d)"
proof -
  have c: "updateCollection_input (Some (JObj kvs)) = None"
    using assms(1)
    by (cases "z_string_min 1 (map_of kvs ''id'')")
      (simp_all add: updateCollection_input_def refine_def z_object_def optional_def)
  have p: "updatePoem_input (Some (JObj kvs')) = None"
    using assms(2)
    by (cases "z_string_min 1 (map_of kvs' ''id'')")
      (simp_all add: updatePoem_input_def refine_def z_object_def optional_def
        of_optional_def)
  show ?thesis
    by (simp add: updateCollection_def updatePoem_def defineAction_def throw_def c p)
qed

theorem update_without_fields_rejected_witness:
  "map_of [(''id'', JStr ''c1'')] ''name'' = None \<and>
   map_of [(''id'', JStr ''p1'')] ''body'' = None \<and>
   updateCollection (Some (JObj [(''id'', JStr ''c1'')])) alice 9 (studio True) =
     (Inl ActionInputError, studio True) \<and>
   updatePoem (Some (JObj [(''id'', JStr ''p1'')])) alice 9 (studio True) =
     (Inl ActionInputError, studio True)"
  using update_without_fields_rejected
    [of "[(''id'', JStr ''c1'')]" "[(''id'', JStr ''p1'')]" alice 9 "studio True"]
  by simp

subsection \<open>Creating rows\<close>

text \<open>
  Claim C5. Whatever input \<^verbatim>\<open>createCollection\<close> or \<^verbatim>\<open>createPoem\<close> is given by a
  signed-in caller, a row it returns has the caller's id as its \<^verbatim>\<open>userId\<close> and the
  freshly generated \<^verbatim>\<open>crypto.randomUUID()\<close> as its \<^verbatim>\<open>id\<close>, an id no row of the table
  had before; the row is the one appended to the table. Fields \<^verbatim>\<open>id\<close> and
  \<^verbatim>\<open>userId\<close> that the caller puts into the input change nothing: the action behaves as
  it does without them.
\<close>

theorem created_row_owner_and_identity:
  assumes "requireUser ctx = Inr u"
  shows
    "(\<forall>res d'. createCollection raw ctx uuid now d = (Inr res, d') \<longrightarrow>
        (\<exists>row. res = Some row \<and> PoemCollections d' = PoemCollections d @ [row] \<and>
           c_userId row = user_id u \<and> c_id row = uuid \<and>
           uuid \<notin> set (map c_id (PoemCollections d)))) \<and>
     (\<forall>res d'. createPoem raw' ctx uuid now d = (Inr res, d') \<longrightarrow>
        (\<exists>row. res = Some row \<and> Poems d' = Poems d @ [row] \<and>
           p_userId row = user_id u \<and> p_id row = uuid \<and>
           uuid \<notin> set (map p_id (Poems d)))) \<and>
     createCollection (Some (JObj ((''id'', v) # (''userId'', w) # kvs))) ctx uuid now d =
       createCollection (Some (JObj kvs)) ctx uuid now d \<and>
     createPoem (Some (JObj ((''id'', v) # (''userId'', w) # kvs))) ctx uuid now d =
       createPoem (Some (JObj kvs)) ctx uuid now d"
proof -
  have a: "\<exists>row. res = Some row \<and> PoemCollections d' = PoemCollections d @ [row] \<and>
             c_userId row = user_id u \<and> c_id row = uuid \<and>
             uuid \<notin> set (map c_id (PoemCollections d))"
    if "createCollection_handler input ctx uuid now d = (Inr res, d')" for input res d'
    using that assms
    by (auto simp: createCollection_handler_def action_defs insert_PoemCollections_def
        first_def issue_def Let_def split: if_splits)
  have b: "\<exists>row. res = Some row \<and> Poems d' = Poems d @ [row] \<and>
             p_userId row = user_id u \<and> p_id row = uuid \<and>
             uuid \<notin> set (map p_id (Poems d))"
    if "createPoem_handler input ctx uuid now d = (Inr res, d')" for input res d'
    using that assms
    by (auto simp: createPoem_handler_def action_defs insert_Poems_def getOwnedCollection_eq
        first_def issue_def Let_def split: if_splits option.splits list.splits)
  have c: "createCollection (Some (JObj ((''id'', v) # (''userId'', w) # kvs))) ctx uuid now d =
           createCollection (Some (JObj kvs)) ctx uuid now d"
    by (simp add: createCollection_def defineAction_def createCollection_input_def
        z_object_def)
  have e: "createPoem (Some (JObj ((''id'', v) # (''userId'', w) # kvs))) ctx uuid now d =
           createPoem (Some (JObj kvs)) ctx uuid now d"
    by (simp add: createPoem_def defineAction_def createPoem_input_def z_object_def)
  show ?thesis
    using a b c e
    by (auto simp: createCollection_def createPoem_def defineAction_def throw_def
        split: option.splits)
qed

theorem created_row_owner_and_identity_witness:
  "requireUser alice = Inr \<lparr>user_id = ''alice''\<rparr> \<and>
   createCollection
     (Some (JObj [(''id'', JStr ''c2''), (''userId'', JStr ''bob''), (''name'', JStr ''Odes'')]))
     alice ''n1'' 9 (studio True) =
     (Inr (Some \<lparr>c_id = ''n1'', c_userId = ''alice'', c_name = ''Odes'',
                 c_description = None, c_icon = None, c_isDefault = False,
                 c_createdAt = 9, c_updatedAt = 9\<rparr>),
      \<lparr>PoemCollections =
         [nature, limericks,
          \<lparr>c_id = ''n1'', c_userId = ''alice'', c_name = ''Odes'', c_description = None,
           c_icon = None, c_isDefault = False, c_createdAt = 9, c_updatedAt = 9\<rparr>],
       Poems = [old_pond, there_once], foreign_keys = True,
       statements = [InsertInto TPoemCollections]\<rparr>) \<and>
   fst (createPoem
     (Some (JObj [(''id'', JStr ''p1''), (''userId'', JStr ''bob''), (''body'', JStr ''x'')]))
     alice ''n1'' 9 (studio True)) =
     Inr (Some \<lparr>p_id = ''n1'', p_collectionId = None, p_userId = ''alice'',
                 p_title = None, p_form = None, p_style = None, p_language = None,
                 p_prompt = None, p_body = ''x'', p_notes = None, p_isFavorite = False,
                 p_createdAt = 9, p_updatedAt = 9\<rparr>)"
  using created_row_owner_and_identity [of alice "\<lparr>user_id = ''alice''\<rparr>"
      "Some (JObj [(''id'', JStr ''c2''), (''userId'', JStr ''bob''), (''name'', JStr ''Odes'')])"
      "''n1''" 9 "studio True"
      "Some (JObj [(''id'', JStr ''p1''), (''userId'', JStr ''bob''), (''body'', JStr ''x'')])"]
  by (simp add: export_defs schema_defs handler_defs action_defs store_defs fixture_defs)

subsection \<open>Deleting a poem\<close>

text \<open>
  Claim C6. For a signed-in caller \<^verbatim>\<open>deletePoem\<close> issues one statement, the delete,
  and no select. It removes exactly the rows whose \<^verbatim>\<open>id\<close> is the input's and whose
  \<^verbatim>\<open>userId\<close> is the caller's. When there is no such row, because the id does not exist
  or because the poem is another user's, nothing is removed and the handler fails with the
  same \<^verbatim>\<open>NOT_FOUND\<close> error and the same store in both cases.
\<close>

theorem deletePoem_outcome:
  assumes "requireUser ctx = Inr u"
  shows "deletePoem_handler input ctx d =
    (if list_ex (\<lambda>p. p_id p = dp_id input \<and> p_userId p = user_id u) (Poems d)
     then (Inr (),
           d\<lparr>Poems := filter (\<lambda>p. \<not> (p_id p = dp_id input \<and> p_userId p = user_id u)) (Poems d),
             statements := statements d @ [DeleteFrom TPoems]\<rparr>)
     else (Inl (ActionError NOT_FOUND ''Poem not found.''),
           d\<lparr>statements := statements d @ [DeleteFrom TPoems]\<rparr>))"
proof -
  let ?c = "\<lambda>p. p_id p = dp_id input \<and> p_userId p = user_id u"
  have a: "length (filter ?c (Poems d)) = 0 \<longleftrightarrow> \<not> list_ex ?c (Poems d)"
    by (simp add: list_ex_iff filter_empty_conv)
  have b: "\<not> list_ex ?c (Poems d) \<Longrightarrow> filter (\<lambda>p. \<not> ?c p) (Poems d) = Poems d"
    by (simp add: list_ex_iff filter_id_conv)
  show ?thesis using a b
    by (simp add: deletePoem_handler_def assms action_defs delete_Poems_def issue_def)
qed

theorem deletePoem_outcome_witness:
  "requireUser bob = Inr \<lparr>user_id = ''bob''\<rparr> \<and>
   deletePoem_handler \<lparr>dp_id = ''p1''\<rparr> bob (studio True) =
     (Inl (ActionError NOT_FOUND ''Poem not found.''),
      \<lparr>PoemCollections = [nature, limericks], Poems = [old_pond, there_once],
       foreign_keys = True, statements = [DeleteFrom TPoems]\<rparr>) \<and>
   deletePoem_handler \<lparr>dp_id = ''p9''\<rparr> bob (studio True) =
     (Inl (ActionError NOT_FOUND ''Poem not found.''),
      \<lparr>PoemCollections = [nature, limericks], Poems = [old_pond, there_once],
       foreign_keys = True, statements = [DeleteFrom TPoems]\<rparr>) \<and>
   deletePoem_handler \<lparr>dp_id = ''p2''\<rparr> bob (studio True) =
     (Inr (),
      \<lparr>PoemCollections = [nature, limericks], Poems = [old_pond],
       foreign_keys = True, statements = [DeleteFrom TPoems]\<rparr>)"
  using
    deletePoem_outcome [of bob "\<lparr>user_id = ''bob''\<rparr>" "\<lparr>dp_id = ''p1''\<rparr>" "studio True"]
    deletePoem_outcome [of bob "\<lparr>user_id = ''bob''\<rparr>" "\<lparr>dp_id = ''p9''\<rparr>" "studio True"]
    deletePoem_outcome [of bob "\<lparr>user_id = ''bob''\<rparr>" "\<lparr>dp_id = ''p2''\<rparr>" "studio True"]
  by (simp add: requireUser_def fixture_defs)

subsection \<open>Partial updates\<close>

text \<open>
  Claim C7. In a store whose primary keys are distinct, a successful
  \<^verbatim>\<open>updateCollection\<close> or \<^verbatim>\<open>updatePoem\<close> of a signed-in caller changes one row,
  the row with the input's id, which the caller owns. In the new row every field whose
  input is absent has its previous value (none is set to NULL), every field whose input is
  present has the input's value, \<^verbatim>\<open>updatedAt\<close> is the current time, and \<^verbatim>\<open>id\<close>,
  \<^verbatim>\<open>userId\<close> and \<^verbatim>\<open>createdAt\<close> are as before. The handler returns that new row. All
  other rows of the table, and the other table, are unchanged.
\<close>

theorem update_is_partial:
  assumes "requireUser ctx = Inr u" and "primary_keys d"
  shows
    "(\<forall>res d'. updateCollection_handler input ctx now d = (Inr res, d') \<longrightarrow>
        (\<exists>i old new. i < length (PoemCollections d) \<and> old = PoemCollections d ! i \<and>
           c_id old = uc_id input \<and> c_userId old = user_id u \<and> res = Some new \<and>
           PoemCollections d' = (PoemCollections d)[i := new] \<and> Poems d' = Poems d \<and>
           c_id new = c_id old \<and> c_userId new = c_userId old \<and>
           c_createdAt new = c_createdAt old \<and>
           c_name new = (case uc_name input of None \<Rightarrow> c_name old | Some v \<Rightarrow> v) \<and>
           c_description new =
             (case uc_description input of None \<Rightarrow> c_description old | Some v \<Rightarrow> Some v) \<and>
           c_icon new = (case uc_icon input of None \<Rightarrow> c_icon old | Some v \<Rightarrow> Some v) \<and>
           c_isDefault new =
             (case uc_isDefault input of None \<Rightarrow> c_isDefault old | Some v \<Rightarrow> v) \<and>
           c_updatedAt new = now)) \<and>
     (\<forall>res d'. updatePoem_handler input' ctx now d = (Inr res, d') \<longrightarrow>
        (\<exists>i old new. i < length (Poems d) \<and> old = Poems d ! i \<and>
           p_id old = up_id input' \<and> p_userId old = user_id u \<and> res = Some new \<and>
           Poems d' = (Poems d)[i := new] \<and> PoemCollections d' = PoemCollections d \<and>
           p_id new = p_id old \<and> p_userId new = p_userId old \<and>
           p_createdAt new = p_createdAt old \<and>
           p_collectionId new =
             (case up_collectionId input' of
                Undefined \<Rightarrow> p_collectionId old | Null \<Rightarrow> None | Defined v \<Rightarrow> Some v) \<and>
           p_title new = (case up_title input' of None \<Rightarrow> p_title old | Some v \<Rightarrow> Some v) \<and>
           p_form new = (case up_form input' of None \<Rightarrow> p_form old | Some v \<Rightarrow> Some v) \<and>
           p_style new = (case up_style input' of None \<Rightarrow> p_style old | Some v \<Rightarrow> Some v) \<and>
           p_language new =
             (case up_language input' of None \<Rightarrow> p_language old | Some v \<Rightarrow> Some v) \<and>
           p_prompt new =
             (case up_prompt input' of None \<Rightarrow> p_prompt old | Some v \<Rightarrow> Some v) \<and>
           p_body new = (case up_body input' of None \<Rightarrow> p_body old | Some v \<Rightarrow> v) \<and>
           p_notes new = (case up_notes input' of None \<Rightarrow> p_notes old | Some v \<Rightarrow> Some v) \<and>
           p_isFavorite new =
             (case up_isFavorite input' of None \<Rightarrow> p_isFavorite old | Some v \<Rightarrow> v) \<and>
           p_updatedAt new = now))"
proof (intro conjI allI impI)
  fix res d'
  assume "updateCollection_handler input ctx now d = (Inr res, d')"
  from updateCollection_handler_effect [OF assms(1) _ this] assms(2)
  obtain i where i: "i < length (PoemCollections d)"
    and o: "c_id (PoemCollections d ! i) = uc_id input"
      "c_userId (PoemCollections d ! i) = user_id u"
    and r: "res = Some (collection_set input now (PoemCollections d ! i))"
    and d': "d' = d\<lparr>PoemCollections :=
                    (PoemCollections d)[i := collection_set input now (PoemCollections d ! i)],
                  statements :=
                    statements d @ [SelectFrom TPoemCollections, Update TPoemCollections]\<rparr>"
    by (auto simp: primary_keys_def)
  let ?old = "PoemCollections d ! i"
  let ?new = "collection_set input now ?old"
  have "c_id ?new = c_id ?old" "c_userId ?new = c_userId ?old"
    "c_createdAt ?new = c_createdAt ?old"
    "c_name ?new = (case uc_name input of None \<Rightarrow> c_name ?old | Some v \<Rightarrow> v)"
    "c_description ?new =
       (case uc_description input of None \<Rightarrow> c_description ?old | Some v \<Rightarrow> Some v)"
    "c_icon ?new = (case uc_icon input of None \<Rightarrow> c_icon ?old | Some v \<Rightarrow> Some v)"
    "c_isDefault ?new = (case uc_isDefault input of None \<Rightarrow> c_isDefault ?old | Some v \<Rightarrow> v)"
    "c_updatedAt ?new = now"
    by (simp_all add: collection_set_def)
  moreover have "PoemCollections d' = (PoemCollections d)[i := ?new]" "Poems d' = Poems d"
    using d' by simp_all
  ultimately
  show "\<exists>i old new. i < length (PoemCollections d) \<and> old = PoemCollections d ! i \<and>
           c_id old = uc_id input \<and> c_userId old = user_id u \<and> res = Some new \<and>
           PoemCollections d' = (PoemCollections d)[i := new] \<and> Poems d' = Poems d \<and>
           c_id new = c_id old \<and> c_userId new = c_userId old \<and>
           c_createdAt new = c_createdAt old \<and>
           c_name new = (case uc_name input of None \<Rightarrow> c_name old | Some v \<Rightarrow> v) \<and>
           c_description new =
             (case uc_description input of None \<Rightarrow> c_description old | Some v \<Rightarrow> Some v) \<and>
           c_icon new = (case uc_icon input of None \<Rightarrow> c_icon old | Some v \<Rightarrow> Some v) \<and>
           c_isDefault new =
             (case uc_isDefault input of None \<Rightarrow> c_isDefault old | Some v \<Rightarrow> v) \<and>
           c_updatedAt new = now"
    using i o r by blast
next
  fix res d'
  assume "updatePoem_handler input' ctx now d = (Inr res, d')"
  from updatePoem_handler_effect [OF assms(1) _ this] assms(2)
  obtain i where i: "i < length (Poems d)"
    and o: "p_id (Poems d ! i) = up_id input'" "p_userId (Poems d ! i) = user_id u"
    and r: "res = Some (poem_set input' now (Poems d ! i))"
    and d': "Poems d' = (Poems d)[i := poem_set input' now (Poems d ! i)]"
      "PoemCollections d' = PoemCollections d"
    by (auto simp: primary_keys_def)
  let ?old = "Poems d ! i"
  let ?new = "poem_set input' now ?old"
  have "p_id ?new = p_id ?old" "p_userId ?new = p_userId ?old"
    "p_createdAt ?new = p_createdAt ?old"
    "p_collectionId ?new =
       (case up_collectionId input' of
          Undefined \<Rightarrow> p_collectionId ?old | Null \<Rightarrow> None | Defined v \<Rightarrow> Some v)"
    "p_title ?new = (case up_title input' of None \<Rightarrow> p_title ?old | Some v \<Rightarrow> Some v)"
    "p_form ?new = (case up_form input' of None \<Rightarrow> p_form ?old | Some v \<Rightarrow> Some v)"
    "p_style ?new = (case up_style input' of None \<Rightarrow> p_style ?old | Some v \<Rightarrow> Some v)"
    "p_language ?new =
       (case up_language input' of None \<Rightarrow> p_language ?old | Some v \<Rightarrow> Some v)"
    "p_prompt ?new = (case up_prompt input' of None \<Rightarrow> p_prompt ?old | Some v \<Rightarrow> Some v)"
    "p_body ?new = (case up_body input' of None \<Rightarrow> p_body ?old | Some v \<Rightarrow> v)"
    "p_notes ?new = (case up_notes input' of None \<Rightarrow> p_notes ?old | Some v \<Rightarrow> Some v)"
    "p_isFavorite ?new =
       (case up_isFavorite input' of None \<Rightarrow> p_isFavorite ?old | Some v \<Rightarrow> v)"
    "p_updatedAt ?new = now"
    by (simp_all add: poem_set_def)
  then
  show "\<exists>i old new. i < length (Poems d) \<and> old = Poems d ! i \<and>
           p_id old = up_id input' \<and> p_userId old = user_id u \<and> res = Some new \<and>
           Poems d' = (Poems d)[i := new] \<and> PoemCollections d' = PoemCollections d \<and>
           p_id new = p_id old \<and> p_userId new = p_userId old \<and>
           p_createdAt new = p_createdAt old \<and>
           p_collectionId new =
             (case up_collectionId input' of
                Undefined \<Rightarrow> p_collectionId old | Null \<Rightarrow> None | Defined v \<Rightarrow> Some v) \<and>
           p_title new = (case up_title input' of None \<Rightarrow> p_title old | Some v \<Rightarrow> Some v) \<and>
           p_form new = (case up_form input' of None \<Rightarrow> p_form old | Some v \<Rightarrow> Some v) \<and>
           p_style new = (case up_style input' of None \<Rightarrow> p_style old | Some v \<Rightarrow> Some v) \<and>
           p_language new =
             (case up_language input' of None \<Rightarrow> p_language old | Some v \<Rightarrow> Some v) \<and>
           p_prompt new =
             (case up_prompt input' of None \<Rightarrow> p_prompt old | Some v \<Rightarrow> Some v) \<and>
           p_body new = (case up_body input' of None \<Rightarrow> p_body old | Some v \<Rightarrow> v) \<and>
           p_notes new = (case up_notes input' of None \<Rightarrow> p_notes old | Some v \<Rightarrow> Some v) \<and>
           p_isFavorite new =
             (case up_isFavorite input' of None \<Rightarrow> p_isFavorite old | Some v \<Rightarrow> v) \<and>
           p_updatedAt new = now"
    using i o r d' by blast
qed

theorem update_is_partial_witness:
  "requireUser alice = Inr \<lparr>user_id = ''alice''\<rparr> \<and> primary_keys (studio True) \<and>
   updateCollection_handler
     \<lparr>uc_id = ''c1'', uc_name = Some ''Wild'', uc_description = None, uc_icon = None,
      uc_isDefault = None\<rparr> alice 9 (studio True) =
     (Inr (Some \<lparr>c_id = ''c1'', c_userId = ''alice'', c_name = ''Wild'',
                 c_description = None, c_icon = Some ''leaf'', c_isDefault = False,
                 c_createdAt = 1, c_updatedAt = 9\<rparr>),
      \<lparr>PoemCollections =
         [\<lparr>c_id = ''c1'', c_userId = ''alice'', c_name = ''Wild'', c_description = None,
           c_icon = Some ''leaf'', c_isDefault = False, c_createdAt = 1, c_updatedAt = 9\<rparr>,
          limericks],
       Poems = [old_pond, there_once], foreign_keys = True,
       statements = [SelectFrom TPoemCollections, Update TPoemCollections]\<rparr>) \<and>
   updatePoem_handler
     \<lparr>up_id = ''p1'', up_collectionId = Undefined, up_title = None, up_form = None,
      up_style = None, up_language = None, up_prompt = None, up_body = None,
      up_notes = None, up_isFavorite = Some True\<rparr> alice 9 (studio True) =
     (Inr (Some \<lparr>p_id = ''p1'', p_collectionId = Some ''c1'', p_userId = ''alice'',
                 p_title = Some ''Frog'', p_form = Some ''haiku'', p_style = None,
                 p_language = None, p_prompt = None, p_body = ''old pond'', p_notes = None,
                 p_isFavorite = True, p_createdAt = 3, p_updatedAt = 9\<rparr>),
      \<lparr>PoemCollections = [nature, limericks],
       Poems =
         [\<lparr>p_id = ''p1'', p_collectionId = Some ''c1'', p_userId = ''alice'',
           p_title = Some ''Frog'', p_form = Some ''haiku'', p_style = None,
           p_language = None, p_prompt = None, p_body = ''old pond'', p_notes = None,
           p_isFavorite = True, p_createdAt = 3, p_updatedAt = 9\<rparr>,
          there_once],
       foreign_keys = True, statements = [SelectFrom TPoems, Update TPoems]\<rparr>)"
  using update_is_partial [of alice "\<lparr>user_id = ''alice''\<rparr>" "studio True"
      "\<lparr>uc_id = ''c1'', uc_name = Some ''Wild'', uc_description = None, uc_icon = None,
        uc_isDefault = None\<rparr>" 9
      "\<lparr>up_id = ''p1'', up_collectionId = Undefined, up_title = None, up_form = None,
        up_style = None, up_language = None, up_prompt = None, up_body = None,
        up_notes = None, up_isFavorite = Some True\<rparr>"]
  by (simp add: primary_keys_def handler_defs action_defs store_defs fixture_defs)

subsection \<open>Requests without a user\<close>

text \<open>
  Claim C8 as stated fails for the operations as they are exported: the action parses its
  input before the handler, and with it \<^verbatim>\<open>requireUser\<close>, runs. A request without a
  user whose input the schema rejects, here \<^verbatim>\<open>updatePoem\<close> with \<^verbatim>\<open>{id: "p1"}\<close> and
  no field to update, fails with the input error and not with \<^verbatim>\<open>UNAUTHORIZED\<close>.
\<close>

theorem unauthenticated_invalid_input_counterexample:
  "server (UpdatePoem (Some (JObj [(''id'', JStr ''p1'')]))) anonymous ''n1'' 9 (studio True) =
     (Inl ActionInputError, studio True)"
  by (simp add: anonymous_def export_defs schema_defs action_defs)

text \<open>
  Claim C8, amended. When the request context carries no user (no \<^verbatim>\<open>locals\<close>, or
  \<^verbatim>\<open>locals\<close> without a \<^verbatim>\<open>user\<close>), each of the seven handlers fails with
  \<^verbatim>\<open>UNAUTHORIZED\<close> as its first step, whatever its input, and returns the store it was
  given with nothing added to the statement list: no read, no write. Each of the seven
  operations therefore fails with \<^verbatim>\<open>UNAUTHORIZED\<close> when its input passes the schema,
  and with the input error when the schema rejects the input; in both cases the store is
  returned as it was given and no statement is issued.
\<close>

theorem unauthenticated_request_does_no_work:
  assumes "ctx = \<lparr>context_locals = None\<rparr> \<or>
           ctx = \<lparr>context_locals = Some \<lparr>locals_user = None\<rparr>\<rparr>"
    and "e = ActionError UNAUTHORIZED ''You must be signed in to perform this action.''"
  shows "createCollection_handler i1 ctx uuid now d = (Inl e, d) \<and>
         updateCollection_handler i2 ctx now d = (Inl e, d) \<and>
         listCollections_handler i3 ctx d = (Inl e, d) \<and>
         createPoem_handler i4 ctx uuid now d = (Inl e, d) \<and>
         updatePoem_handler i5 ctx now d = (Inl e, d) \<and>
         deletePoem_handler i6 ctx d = (Inl e, d) \<and>
         listPoems_handler i7 ctx d = (Inl e, d) \<and>
         server req ctx uuid now d =
           (Inl (if schema_accepts req then e else ActionInputError), d)"
proof -
  have u: "requireUser ctx = Inl e"
    using requireUser_no_user [OF assms(1)] assms(2) by simp
  note h = handler_unauthorized [OF u]
  have "server req ctx uuid now d =
          (Inl (if schema_accepts req then e else ActionInputError), d)"
    by (cases req) (auto simp: export_defs h action_defs split: option.splits)
  with h show ?thesis by simp
qed

theorem unauthenticated_request_does_no_work_witness:
  "createCollection_handler
     \<lparr>cc_name = ''Odes'', cc_description = None, cc_icon = None, cc_isDefault = None\<rparr>
     anonymous ''n1'' 9 (studio True) =
     (Inl (ActionError UNAUTHORIZED ''You must be signed in to perform this action.''),
      studio True) \<and>
   updateCollection_handler
     \<lparr>uc_id = ''c1'', uc_name = Some ''Wild'', uc_description = None, uc_icon = None,
      uc_isDefault = None\<rparr> anonymous 9 (studio True) =
     (Inl (ActionError UNAUTHORIZED ''You must be signed in to perform this action.''),
      studio True) \<and>
   listCollections_handler None anonymous (studio True) =
     (Inl (ActionError UNAUTHORIZED ''You must be signed in to perform this action.''),
      studio True) \<and>
   createPoem_handler
     \<lparr>cp_collectionId = Some ''c1'', cp_title = None, cp_form = None, cp_style = None,
      cp_language = None, cp_prompt = None, cp_body = ''x'', cp_notes = None,
      cp_isFavorite = None\<rparr> anonymous ''n1'' 9 (studio True) =
     (Inl (ActionError UNAUTHORIZED ''You must be signed in to perform this action.''),
      studio True) \<and>
   updatePoem_handler
     \<lparr>up_id = ''p1'', up_collectionId = Undefined, up_title = None, up_form = None,
      up_style = None, up_language = None, up_prompt = None, up_body = None,
      up_notes = None, up_isFavorite = Some True\<rparr> anonymous 9 (studio True) =
     (Inl (ActionError UNAUTHORIZED ''You must be signed in to perform this action.''),
      studio True) \<and>
   deletePoem_handler \<lparr>dp_id = ''p1''\<rparr> anonymous (studio True) =
     (Inl (ActionError UNAUTHORIZED ''You must be signed in to perform this action.''),
      studio True) \<and>
   listPoems_handler None anonymous (studio True) =
     (Inl (ActionError UNAUTHORIZED ''You must be signed in to perform this action.''),
      studio True) \<and>
   schema_accepts (DeletePoem (Some (JObj [(''id'', JStr ''p1'')]))) \<and>
   server (DeletePoem (Some (JObj [(''id'', JStr ''p1'')]))) anonymous ''n1'' 9 (studio True) =
     (Inl (ActionError UNAUTHORIZED ''You must be signed in to perform this action.''),
      studio True)"
proof -
  have a: "schema_accepts (DeletePoem (Some (JObj [(''id'', JStr ''p1'')])))"
    by (simp add: schema_defs)
  from unauthenticated_request_does_no_work [of anonymous
      "ActionError UNAUTHORIZED ''You must be signed in to perform this action.''"
      "\<lparr>cc_name = ''Odes'', cc_description = None, cc_icon = None, cc_isDefault = None\<rparr>"
      "''n1''" 9 "studio True"
      "\<lparr>uc_id = ''c1'', uc_name = Some ''Wild'', uc_description = None, uc_icon = None,
        uc_isDefault = None\<rparr>"
      None
      "\<lparr>cp_collectionId = Some ''c1'', cp_title = None, cp_form = None, cp_style = None,
        cp_language = None, cp_prompt = None, cp_body = ''x'', cp_notes = None,
        cp_isFavorite = None\<rparr>"
      "\<lparr>up_id = ''p1'', up_collectionId = Undefined, up_title = None, up_form = None,
        up_style = None, up_language = None, up_prompt = None, up_body = None,
        up_notes = None, up_isFavorite = Some True\<rparr>"
      "\<lparr>dp_id = ''p1''\<rparr>" None
      "DeletePoem (Some (JObj [(''id'', JStr ''p1'')]))"]
  show ?thesis
    using a by (simp add: anonymous_def)
qed

subsection \<open>Timestamps and flags of a new row\<close>

text \<open>
  Claim C9. A row created by \<^verbatim>\<open>createCollection\<close> or \<^verbatim>\<open>createPoem\<close> (the row the
  handler returns, which is the row appended to the table) has \<^verbatim>\<open>createdAt\<close> and
  \<^verbatim>\<open>updatedAt\<close> both equal to the one current time read by the handler, and its flag
  (\<^verbatim>\<open>isDefault\<close>, \<^verbatim>\<open>isFavorite\<close>) is false when the input omits it and the input's
  value otherwise.
\<close>

theorem created_row_timestamps_and_flag:
  "(\<forall>res d'. createCollection_handler input ctx uuid now d = (Inr res, d') \<longrightarrow>
      (\<exists>row. res = Some row \<and> PoemCollections d' = PoemCollections d @ [row] \<and>
         c_createdAt row = now \<and> c_updatedAt row = now \<and>
         c_isDefault row = (case cc_isDefault input of None \<Rightarrow> False | Some b \<Rightarrow> b))) \<and>
   (\<forall>res d'. createPoem_handler input' ctx uuid now d = (Inr res, d') \<longrightarrow>
      (\<exists>row. res = Some row \<and> Poems d' = Poems d @ [row] \<and>
         p_createdAt row = now \<and> p_updatedAt row = now \<and>
         p_isFavorite row = (case cp_isFavorite input' of None \<Rightarrow> False | Some b \<Rightarrow> b)))"
  by (auto simp: createCollection_handler_def createPoem_handler_def action_defs
      insert_PoemCollections_def insert_Poems_def getOwnedCollection_eq first_def issue_def
      Let_def split: sum.splits if_splits option.splits list.splits)

theorem created_row_timestamps_and_flag_witness:
  "createCollection_handler
     \<lparr>cc_name = ''Odes'', cc_description = None, cc_icon = None, cc_isDefault = None\<rparr>
     alice ''n1'' 9 (studio True) =
     (Inr (Some \<lparr>c_id = ''n1'', c_userId = ''alice'', c_name = ''Odes'',
                 c_description = None, c_icon = None, c_isDefault = False,
                 c_createdAt = 9, c_updatedAt = 9\<rparr>),
      \<lparr>PoemCollections =
         [nature, limericks,
          \<lparr>c_id = ''n1'', c_userId = ''alice'', c_name = ''Odes'', c_description = None,
           c_icon = None, c_isDefault = False, c_createdAt = 9, c_updatedAt = 9\<rparr>],
       Poems = [old_pond, there_once], foreign_keys = True,
       statements = [InsertInto TPoemCollections]\<rparr>) \<and>
   createPoem_handler
     \<lparr>cp_collectionId = Some ''c1'', cp_title = None, cp_form = None, cp_style = None,
      cp_language = None, cp_prompt = None, cp_body = ''x'', cp_notes = None,
      cp_isFavorite = None\<rparr> alice ''n1'' 9 (studio True) =
     (Inr (Some \<lparr>p_id = ''n1'', p_collectionId = Some ''c1'', p_userId = ''alice'',
                 p_title = None, p_form = None, p_style = None, p_language = None,
                 p_prompt = None, p_body = ''x'', p_notes = None, p_isFavorite = False,
                 p_createdAt = 9, p_updatedAt = 9\<rparr>),
      \<lparr>PoemCollections = [nature, limericks],
       Poems =
         [old_pond, there_once,
          \<lparr>p_id = ''n1'', p_collectionId = Some ''c1'', p_userId = ''alice'',
           p_title = None, p_form = None, p_style = None, p_language = None,
           p_prompt = None, p_body = ''x'', p_notes = None, p_isFavorite = False,
           p_createdAt = 9, p_updatedAt = 9\<rparr>],
       foreign_keys = True, statements = [SelectFrom TPoemCollections, InsertInto TPoems]\<rparr>)"
  using created_row_timestamps_and_flag [of
      "\<lparr>cc_name = ''Odes'', cc_description = None, cc_icon = None, cc_isDefault = None\<rparr>"
      alice "''n1''" 9 "studio True"
      "\<lparr>cp_collectionId = Some ''c1'', cp_title = None, cp_form = None, cp_style = None,
        cp_language = None, cp_prompt = None, cp_body = ''x'', cp_notes = None,
        cp_isFavorite = None\<rparr>"]
  by (simp add: handler_defs action_defs store_defs fixture_defs)

subsection \<open>A filed poem stays filed\<close>

lemma server_Poems_cases:
  assumes "server req ctx uuid now d = (res, d')" and "distinct (map p_id (Poems d))"
  shows "Poems d' = Poems d \<or>
         (\<exists>row. Poems d' = Poems d @ [row] \<and> p_id row \<notin> set (map p_id (Poems d))) \<or>
         (\<exists>cond. Poems d' = filter cond (Poems d)) \<or>
         (\<exists>u input i. requireUser ctx = Inr u \<and> up_collectionId input \<noteq> Null \<and>
            i < length (Poems d) \<and>
            Poems d' = (Poems d)[i := poem_set input now (Poems d ! i)] \<and>
            (\<forall>cid. up_collectionId input = Defined cid \<longrightarrow>
               list_ex (\<lambda>c. c_id c = cid \<and> c_userId c = user_id u) (PoemCollections d)))"
proof (cases req)
  case (CreateCollection raw)
  with assms(1) obtain r where "createCollection raw ctx uuid now d = (r, d')"
    by (auto simp: action_defs split: sum.splits prod.splits)
  then have "Poems d' = Poems d"
    unfolding createCollection_def
    by (elim defineAction_cases) (auto dest: createCollection_handler_tables)
  then show ?thesis by simp
next
  case (UpdateCollection raw)
  with assms(1) obtain r where "updateCollection raw ctx now d = (r, d')"
    by (auto simp: action_defs split: sum.splits prod.splits)
  then have "Poems d' = Poems d"
    unfolding updateCollection_def
    by (elim defineAction_cases) (auto dest: updateCollection_handler_tables)
  then show ?thesis by simp
next
  case (ListCollections raw)
  with assms(1) obtain r where "listCollections raw ctx d = (r, d')"
    by (auto simp: action_defs split: sum.splits prod.splits)
  then have "Poems d' = Poems d"
    unfolding listCollections_def
    by (elim defineAction_cases) (auto dest: listCollections_handler_tables)
  then show ?thesis by simp
next
  case (CreatePoem raw)
  with assms(1) obtain r where "createPoem raw ctx uuid now d = (r, d')"
    by (auto simp: action_defs split: sum.splits prod.splits)
  then have "Poems d' = Poems d \<or>
    (\<exists>row. Poems d' = Poems d @ [row] \<and> p_id row \<notin> set (map p_id (Poems d)))"
    unfolding createPoem_def
    by (elim defineAction_cases) (auto dest: createPoem_handler_tables)
  then show ?thesis by blast
next
  case (UpdatePoem raw)
  with assms(1) obtain r where "updatePoem raw ctx now d = (r, d')"
    by (auto simp: action_defs split: sum.splits prod.splits)
  then show ?thesis
    unfolding updatePoem_def
  proof (elim defineAction_cases)
    assume "d' = d"
    then show ?thesis by simp
  next
    fix input
    assume p: "updatePoem_input raw = Some input"
      and h: "updatePoem_handler input ctx now d = (r, d')"
    show ?thesis
    proof (cases r)
      case (Inl e)
      with h updatePoem_handler_failure show ?thesis by blast
    next
      case (Inr v)
      show ?thesis
      proof (cases "requireUser ctx")
        case (Inl e)
        with h handler_unauthorized(5) [of ctx e input now d] show ?thesis by simp
      next
        case u: (Inr u)
        from updatePoem_handler_effect [OF u assms(2) h [unfolded Inr]]
          updatePoem_input_not_Null [OF p] u
        show ?thesis by blast
      qed
    qed
  qed
next
  case (DeletePoem raw)
  with assms(1) obtain r where "deletePoem raw ctx d = (r, d')"
    by (auto simp: action_defs split: sum.splits prod.splits)
  then have "\<exists>cond. Poems d' = filter cond (Poems d)"
    unfolding deletePoem_def
  proof (elim defineAction_cases)
    assume "d' = d"
    then have "Poems d' = filter (\<lambda>_. True) (Poems d)" by simp
    then show ?thesis by blast
  next
    fix input
    assume "deletePoem_handler input ctx d = (r, d')"
    then show ?thesis by (simp add: deletePoem_handler_tables)
  qed
  then show ?thesis by blast
next
  case (ListPoems raw)
  with assms(1) obtain r where "listPoems raw ctx d = (r, d')"
    by (auto simp: action_defs split: sum.splits prod.splits)
  then have "Poems d' = Poems d"
    unfolding listPoems_def
    by (elim defineAction_cases) (auto dest: listPoems_handler_tables)
  then show ?thesis by simp
qed

text \<open>
  Claim C10. No request to any of the seven actions takes a poem from a non-NULL
  \<^verbatim>\<open>collectionId\<close> to NULL: in a store with distinct primary keys, a poem that was filed
  before the request and is still in the table after it (same id) is still filed, and if
  its \<^verbatim>\<open>collectionId\<close> changed, then to the id of a collection the caller owns. The
  reason lies in the schema of \<^verbatim>\<open>updatePoem\<close>: an input it accepts never has
  \<^verbatim>\<open>null\<close> as \<^verbatim>\<open>collectionId\<close>, so the handler's test against \<^verbatim>\<open>null\<close> is always
  passed, and an input object with \<^verbatim>\<open>collectionId: null\<close> is rejected before the handler
  and the store are reached.
\<close>

theorem filed_poem_stays_filed:
  assumes "primary_keys d" and "server req ctx uuid now d = (res, d')"
  shows "(\<forall>p\<in>set (Poems d). \<forall>p'\<in>set (Poems d').
            p_id p' = p_id p \<and> p_collectionId p \<noteq> None \<longrightarrow>
              p_collectionId p' \<noteq> None \<and>
              (p_collectionId p' = p_collectionId p \<or>
               (\<exists>u. requireUser ctx = Inr u \<and>
                  list_ex (\<lambda>c. Some (c_id c) = p_collectionId p' \<and> c_userId c = user_id u)
                    (PoemCollections d)))) \<and>
         (\<forall>input. updatePoem_input raw = Some input \<longrightarrow> up_collectionId input \<noteq> Null) \<and>
         (\<forall>kvs. map_of kvs ''collectionId'' = Some JNull \<longrightarrow>
            updatePoem (Some (JObj kvs)) ctx now d = (Inl ActionInputError, d))"
proof -
  have dist: "distinct (map p_id (Poems d))"
    using assms(1) by (simp add: primary_keys_def)
  have main: "p_collectionId p' \<noteq> None \<and>
              (p_collectionId p' = p_collectionId p \<or>
               (\<exists>u. requireUser ctx = Inr u \<and>
                  list_ex (\<lambda>c. Some (c_id c) = p_collectionId p' \<and> c_userId c = user_id u)
                    (PoemCollections d)))"
    if p: "p \<in> set (Poems d)" and p': "p' \<in> set (Poems d')" and k: "p_id p' = p_id p"
      and f: "p_collectionId p \<noteq> None" for p p'
  proof -
    from server_Poems_cases [OF assms(2) dist]
    consider (a) "Poems d' = Poems d"
      | (b) row where "Poems d' = Poems d @ [row]" and "p_id row \<notin> set (map p_id (Poems d))"
      | (c) cond where "Poems d' = filter cond (Poems d)"
      | (e) u input i where "requireUser ctx = Inr u" and "up_collectionId input \<noteq> Null"
          and "i < length (Poems d)"
          and "Poems d' = (Poems d)[i := poem_set input now (Poems d ! i)]"
          and "\<forall>cid. up_collectionId input = Defined cid \<longrightarrow>
               list_ex (\<lambda>c. c_id c = cid \<and> c_userId c = user_id u) (PoemCollections d)"
      by blast
    then consider (same) "p' \<in> set (Poems d)"
      | (new) "p_id p' \<notin> set (map p_id (Poems d))"
      | (upd) u input i where "requireUser ctx = Inr u" and "up_collectionId input \<noteq> Null"
          and "i < length (Poems d)" and "p' = poem_set input now (Poems d ! i)"
          and "\<forall>cid. up_collectionId input = Defined cid \<longrightarrow>
               list_ex (\<lambda>c. c_id c = cid \<and> c_userId c = user_id u) (PoemCollections d)"
    proof cases
      case a
      with p' that(1) show ?thesis by simp
    next
      case b
      with p' that(1,2) show ?thesis by auto
    next
      case c
      with p' that(1) show ?thesis by simp
    next
      case e
      from p' e(4) have "p' = poem_set input now (Poems d ! i) \<or> p' \<in> set (Poems d)"
        using set_update_subset_insert [of "Poems d" i "poem_set input now (Poems d ! i)"]
        by auto
      with e that(1,3) show ?thesis by blast
    qed
    then show ?thesis
    proof cases
      case same
      with same_key_same_row [OF dist same p k] f show ?thesis by simp
    next
      case new
      with p k show ?thesis by simp
    next
      case upd
      have "p_id (Poems d ! i) = p_id p"
        using upd(4) k by (simp add: poem_set_def)
      with same_key_same_row [OF dist _ p] upd(3) have e: "Poems d ! i = p" by simp
      show ?thesis
      proof (cases "up_collectionId input")
        case Undefined
        with upd(4) e f show ?thesis by (simp add: poem_set_def)
      next
        case Null
        with upd(2) show ?thesis by simp
      next
        case (Defined cid)
        with upd(5)
        have "list_ex (\<lambda>c. c_id c = cid \<and> c_userId c = user_id u) (PoemCollections d)"
          by simp
        moreover have "p_collectionId p' = Some cid"
          using upd(4) Defined by (simp add: poem_set_def)
        ultimately show ?thesis using upd(1) by (auto simp: list_ex_iff)
      qed
    qed
  qed
  have null: "updatePoem (Some (JObj kvs)) ctx now d = (Inl ActionInputError, d)"
    if "map_of kvs ''collectionId'' = Some JNull" for kvs
    using updatePoem_input_rejects_null [OF that]
    by (simp add: updatePoem_def defineAction_def throw_def)
  from main null updatePoem_input_not_Null show ?thesis by blast
qed

theorem filed_poem_stays_filed_witness:
  "primary_keys (studio True) \<and>
   server (UpdatePoem (Some (JObj [(''id'', JStr ''p1''), (''isFavorite'', JBool True)])))
     alice ''n1'' 9 (studio True) =
     (Inr (PoemData
        (Some \<lparr>p_id = ''p1'', p_collectionId = Some ''c1'', p_userId = ''alice'',
               p_title = Some ''Frog'', p_form = Some ''haiku'', p_style = None,
               p_language = None, p_prompt = None, p_body = ''old pond'', p_notes = None,
               p_isFavorite = True, p_createdAt = 3, p_updatedAt = 9\<rparr>)),
      \<lparr>PoemCollections = [nature, limericks],
       Poems =
         [\<lparr>p_id = ''p1'', p_collectionId = Some ''c1'', p_userId = ''alice'',
           p_title = Some ''Frog'', p_form = Some ''haiku'', p_style = None,
           p_language = None, p_prompt = None, p_body = ''old pond'', p_notes = None,
           p_isFavorite = True, p_createdAt = 3, p_updatedAt = 9\<rparr>,
          there_once],
       foreign_keys = True, statements = [SelectFrom TPoems, Update TPoems]\<rparr>) \<and>
   updatePoem (Some (JObj [(''id'', JStr ''p1''), (''collectionId'', JNull)])) alice 9
     (studio True) = (Inl ActionInputError, studio True)"
proof -
  have pk: "primary_keys (studio True)"
    by (simp add: primary_keys_def fixture_defs)
  have ev: "server (UpdatePoem (Some (JObj [(''id'', JStr ''p1''), (''isFavorite'', JBool True)])))
      alice ''n1'' 9 (studio True) =
     (Inr (PoemData
        (Some \<lparr>p_id = ''p1'', p_collectionId = Some ''c1'', p_userId = ''alice'',
               p_title = Some ''Frog'', p_form = Some ''haiku'', p_style = None,
               p_language = None, p_prompt = None, p_body = ''old pond'', p_notes = None,
               p_isFavorite = True, p_createdAt = 3, p_updatedAt = 9\<rparr>)),
      \<lparr>PoemCollections = [nature, limericks],
       Poems =
         [\<lparr>p_id = ''p1'', p_collectionId = Some ''c1'', p_userId = ''alice'',
           p_title = Some ''Frog'', p_form = Some ''haiku'', p_style = None,
           p_language = None, p_prompt = None, p_body = ''old pond'', p_notes = None,
           p_isFavorite = True, p_createdAt = 3, p_updatedAt = 9\<rparr>,
          there_once],
       foreign_keys = True, statements = [SelectFrom TPoems, Update TPoems]\<rparr>)"
    by (simp add: export_defs schema_defs handler_defs action_defs store_defs fixture_defs
        del: not_None_eq)
  from filed_poem_stays_filed [OF pk ev]
  have "\<forall>kvs. map_of kvs ''collectionId'' = Some JNull \<longrightarrow>
          updatePoem (Some (JObj kvs)) alice 9 (studio True) =
            (Inl ActionInputError, studio True)"
    by blast
  then have "updatePoem (Some (JObj [(''id'', JStr ''p1''), (''collectionId'', JNull)])) alice 9
     (studio True) = (Inl ActionInputError, studio True)"
    by simp
  with pk ev show ?thesis by simp
qed

subsection \<open>The primary keys stay distinct\<close>

text \<open>
  The hypothesis of distinct primary keys used above is an invariant of the store: it holds
  of the empty store, and every request to the seven actions, successful or not,
  preserves it.
\<close>

lemma updatePoem_handler_ids:
  "updatePoem_handler input ctx now d = (res, d') \<Longrightarrow>
   PoemCollections d' = PoemCollections d \<and> map p_id (Poems d') = map p_id (Poems d)"
  by (auto simp: updatePoem_handler_def action_defs select_Poems_def first_def
      getOwnedCollection_eq update_Poems_def issue_def Let_def poem_set_ids
      simp del: map_map split: sum.splits list.splits nullable.splits if_splits)

lemma primary_keys_empty:
  "primary_keys \<lparr>PoemCollections = [], Poems = [], foreign_keys = fk, statements = []\<rparr>"
  by (simp add: primary_keys_def)

lemma server_primary_keys:
  assumes "primary_keys d" and "server req ctx uuid now d = (res, d')"
  shows "primary_keys d'"
proof (cases req)
  case (CreateCollection raw)
  with assms(2) obtain r where "createCollection raw ctx uuid now d = (r, d')"
    by (auto simp: action_defs split: sum.splits prod.splits)
  then show ?thesis
    unfolding createCollection_def using assms(1)
    by (elim defineAction_cases)
      (auto simp: primary_keys_def dest!: createCollection_handler_tables)
next
  case (UpdateCollection raw)
  with assms(2) obtain r where "updateCollection raw ctx now d = (r, d')"
    by (auto simp: action_defs split: sum.splits prod.splits)
  then show ?thesis
    unfolding updateCollection_def using assms(1)
    by (elim defineAction_cases)
      (auto simp: primary_keys_def dest!: updateCollection_handler_tables)
next
  case (ListCollections raw)
  with assms(2) obtain r where "listCollections raw ctx d = (r, d')"
    by (auto simp: action_defs split: sum.splits prod.splits)
  then show ?thesis
    unfolding listCollections_def using assms(1)
    by (elim defineAction_cases)
      (auto simp: primary_keys_def dest!: listCollections_handler_tables)
next
  case (CreatePoem raw)
  with assms(2) obtain r where "createPoem raw ctx uuid now d = (r, d')"
    by (auto simp: action_defs split: sum.splits prod.splits)
  then show ?thesis
    unfolding createPoem_def using assms(1)
    by (elim defineAction_cases)
      (auto simp: primary_keys_def dest!: createPoem_handler_tables)
next
  case (UpdatePoem raw)
  with assms(2) obtain r where "updatePoem raw ctx now d = (r, d')"
    by (auto simp: action_defs split: sum.splits prod.splits)
  then show ?thesis
    unfolding updatePoem_def using assms(1)
    by (elim defineAction_cases)
      (auto simp: primary_keys_def dest!: updatePoem_handler_ids)
next
  case (DeletePoem raw)
  with assms(2) obtain r where "deletePoem raw ctx d = (r, d')"
    by (auto simp: action_defs split: sum.splits prod.splits)
  then show ?thesis
    unfolding deletePoem_def using assms(1)
    by (elim defineAction_cases)
      (auto simp: primary_keys_def distinct_map_filter dest!: deletePoem_handler_tables)
next
  case (ListPoems raw)
  with assms(2) obtain r where "listPoems raw ctx d = (r, d')"
    by (auto simp: action_defs split: sum.splits prod.splits)
  then show ?thesis
    unfolding listPoems_def using assms(1)
    by (elim defineAction_cases)
      (auto simp: primary_keys_def dest!: listPoems_handler_tables)
qed

end
